theory Spec2Isabelle
  imports Complex_Main "HOL-Library.Monad_Syntax"
begin

section \<open>Metric accumulator: the class AverageMeter\<close>

text \<open>
  \<^verbatim>\<open>
  class AverageMeter:
      def __init__(self):      self.reset()
      def reset(self):         self.sum = 0; self.count = 0
      def update(self, value, n=1):
          self.sum += value * n
          self.count += n
      @property
      def avg(self):           return self.sum / self.count if self.count > 0 else 0
  \<close>
  The object is its two fields. The value is a loss (\<open>loss.item()\<close>), a Python float read
  here as a real number; the weight \<open>n\<close> is a number of samples (every call of the
  notebooks passes \<open>X_batch.size(0)\<close>, a tensor dimension, or leaves the default 1), so
  it is a natural number and \<open>count\<close> with it. The field \<open>sum\<close> is written \<open>sum'\<close>.
\<close>

record AverageMeter =
  sum' :: real
  count :: nat

definition reset :: "AverageMeter" where
  "reset = \<lparr>sum' = 0, count = 0\<rparr>"

definition AverageMeter_init :: "AverageMeter" where
  "AverageMeter_init = reset"

definition update :: "AverageMeter \<Rightarrow> real \<Rightarrow> nat \<Rightarrow> AverageMeter" where
  "update m v n = m\<lparr>sum' := sum' m + v * real n, count := count m + n\<rparr>"

definition avg :: "AverageMeter \<Rightarrow> real" where
  "avg m = (if count m > 0 then sum' m / real (count m) else 0)"

text \<open>A sequence of \<open>update(value, n)\<close> calls on a freshly reset meter.\<close>

definition updates :: "AverageMeter \<Rightarrow> (real \<times> nat) list \<Rightarrow> AverageMeter" where
  "updates m us = foldl (\<lambda>m (v, n). update m v n) m us"

section \<open>The accuracy metric and arg-max of the external libraries\<close>

text \<open>
  \<open>torchmetrics.Accuracy(task="multiclass", num_classes=...)\<close> is not code of the notebooks.
  With its default (micro) averaging it counts the predictions that equal their label and
  the labels seen; \<open>compute()\<close> is their quotient, and 0 before any update. The notebooks
  call \<open>reset\<close>, \<open>update(preds, y_batch)\<close> and \<open>compute\<close> on it.
\<close>

record Accuracy =
  correct :: nat
  total :: nat

definition Accuracy_reset :: "Accuracy" where
  "Accuracy_reset = \<lparr>correct = 0, total = 0\<rparr>"

definition Accuracy_update :: "Accuracy \<Rightarrow> nat list \<Rightarrow> nat list \<Rightarrow> Accuracy" where
  "Accuracy_update a preds target =
     a\<lparr>correct := correct a + length (filter (\<lambda>(p, t). p = t) (zip preds target)),
       total := total a + length target\<rparr>"

definition Accuracy_compute :: "Accuracy \<Rightarrow> real" where
  "Accuracy_compute a = (if total a = 0 then 0 else real (correct a) / real (total a))"

definition Accuracy_updates :: "Accuracy \<Rightarrow> (nat list \<times> nat list) list \<Rightarrow> Accuracy" where
  "Accuracy_updates a us = foldl (\<lambda>a (preds, target). Accuracy_update a preds target) a us"

text \<open>
  \<open>outputs.argmax(dim=1)\<close>: for each row of class scores the index of its first maximal
  entry. \<open>argmax_from best i xs\<close> scans \<open>xs\<close>, whose first entry has index \<open>i\<close>, keeping the
  best (index, score) so far; a later entry wins only when strictly greater. The class
  dimension of the notebooks has 10 entries; on an empty row the library raises, and the
  function below is 0 there.
\<close>

fun argmax_from :: "nat \<times> real \<Rightarrow> nat \<Rightarrow> real list \<Rightarrow> nat" where
  "argmax_from (bi, bv) i [] = bi"
| "argmax_from (bi, bv) i (x # xs) =
     (if x > bv then argmax_from (i, x) (Suc i) xs else argmax_from (bi, bv) (Suc i) xs)"

fun argmax :: "real list \<Rightarrow> nat" where
  "argmax [] = 0"
| "argmax (x # xs) = argmax_from (0, x) 1 xs"

section \<open>Epoch runner: train_one_epoch and validate\<close>

text \<open>
  The model, the loss and the optimizer belong to the tensor library. What the epoch
  runner does with them is a sequence of library calls on mutable objects, so the objects
  are a record of state and the library is a record of functions:
  \<^item> \<open>params\<close>: the learnable parameters; \<open>buffers\<close>: the other tensors of the state
    dictionary (running statistics of normalization layers);
  \<^item> \<open>grads\<close>: the gradients accumulated in the \<open>.grad\<close> fields;
  \<^item> \<open>training\<close>: the mode flag set by \<open>model.train()\<close> and \<open>model.eval()\<close>;
  \<^item> \<open>opt_state\<close>: the internal state of the optimizer;
  \<^item> \<open>calls\<close>: the library calls made so far, in order.

  A batch is a list of samples with the list of their integer labels, so
  \<open>X_batch.size(0)\<close> is the length of the first list; \<open>.to(device)\<close> moves data and
  changes no value. The predictions are a list of rows of class scores. In training mode
  a forward pass may write the buffers; in evaluation mode it only reads the parameters
  and buffers. A library call that raises ends the notebook cell (the source catches
  nothing); the functions below describe the runs in which every call returns.
\<close>

datatype call =
  ModelTrain | ModelEval | MetricReset | Forward | Criterion | ZeroGrad | Backward
  | OptimizerStep | MeterUpdate | Argmax | MetricUpdate | MetricCompute

record ('p, 'b, 'g, 'o) world =
  params :: 'p
  buffers :: 'b
  grads :: 'g
  training :: bool
  opt_state :: 'o
  calls :: "call list"

record ('p, 'b, 'g, 'o, 'a) torch =
  forward_train :: "'p \<Rightarrow> 'b \<Rightarrow> 'a list \<Rightarrow> 'b \<times> real list list"
  forward_eval :: "'p \<Rightarrow> 'b \<Rightarrow> 'a list \<Rightarrow> real list list"
  criterion :: "real list list \<Rightarrow> nat list \<Rightarrow> real"
  gradient :: "'p \<Rightarrow> 'b \<Rightarrow> 'a list \<Rightarrow> nat list \<Rightarrow> 'g"
  accumulate :: "'g \<Rightarrow> 'g \<Rightarrow> 'g"
  cleared :: 'g
  step :: "'o \<Rightarrow> 'p \<Rightarrow> 'g \<Rightarrow> 'o \<times> 'p"

type_synonym 'a batch = "'a list \<times> nat list"

definition log :: "call \<Rightarrow> ('p, 'b, 'g, 'o) world \<Rightarrow> ('p, 'b, 'g, 'o) world" where
  "log c w = w\<lparr>calls := calls w @ [c]\<rparr>"

definition model_train :: "('p, 'b, 'g, 'o) world \<Rightarrow> ('p, 'b, 'g, 'o) world" where
  "model_train w = log ModelTrain (w\<lparr>training := True\<rparr>)"

definition model_eval :: "('p, 'b, 'g, 'o) world \<Rightarrow> ('p, 'b, 'g, 'o) world" where
  "model_eval w = log ModelEval (w\<lparr>training := False\<rparr>)"

text \<open>\<open>model(X_batch)\<close>: the forward pass of the current mode.\<close>

definition model_call ::
  "('p, 'b, 'g, 'o, 'a) torch \<Rightarrow> ('p, 'b, 'g, 'o) world \<Rightarrow> 'a list
     \<Rightarrow> ('p, 'b, 'g, 'o) world \<times> real list list" where
  "model_call L w X =
     (if training w
      then (let (b, outputs) = forward_train L (params w) (buffers w) X
            in (log Forward (w\<lparr>buffers := b\<rparr>), outputs))
      else (log Forward w, forward_eval L (params w) (buffers w) X))"

text \<open>\<open>optimizer.zero_grad()\<close>, \<open>loss.backward()\<close> (which adds the gradient of the loss to
  the accumulated gradients) and \<open>optimizer.step()\<close>.\<close>

definition zero_grad ::
  "('p, 'b, 'g, 'o, 'a) torch \<Rightarrow> ('p, 'b, 'g, 'o) world \<Rightarrow> ('p, 'b, 'g, 'o) world" where
  "zero_grad L w = log ZeroGrad (w\<lparr>grads := cleared L\<rparr>)"

definition backward ::
  "('p, 'b, 'g, 'o, 'a) torch \<Rightarrow> 'g \<Rightarrow> ('p, 'b, 'g, 'o) world \<Rightarrow> ('p, 'b, 'g, 'o) world" where
  "backward L g w = log Backward (w\<lparr>grads := accumulate L (grads w) g\<rparr>)"

definition optimizer_step ::
  "('p, 'b, 'g, 'o, 'a) torch \<Rightarrow> ('p, 'b, 'g, 'o) world \<Rightarrow> ('p, 'b, 'g, 'o) world" where
  "optimizer_step L w =
     (let (os, ps) = step L (opt_state w) (params w) (grads w)
      in log OptimizerStep (w\<lparr>opt_state := os, params := ps\<rparr>))"

text \<open>
  The body of the loop of \<open>train_one_epoch\<close>, in the order of the source:
  \<^verbatim>\<open>
        outputs = model(X_batch)
        loss = criterion(outputs, y_batch)
        optimizer.zero_grad()
        loss.backward()
        optimizer.step()
        loss_meter.update(loss.item(), X_batch.size(0))
        preds = outputs.argmax(dim=1)
        accuracy_metric.update(preds, y_batch)
        progress_bar.set_postfix(loss=loss_meter.avg, accuracy=accuracy_metric.compute().item())
  \<close>
  The gradient that \<open>loss.backward()\<close> propagates is the one of the forward pass just made,
  at the parameters and buffers the pass started from.
\<close>

definition train_batch ::
  "('p, 'b, 'g, 'o, 'a) torch \<Rightarrow> ('p, 'b, 'g, 'o) world \<times> AverageMeter \<times> Accuracy \<Rightarrow> 'a batch
     \<Rightarrow> ('p, 'b, 'g, 'o) world \<times> AverageMeter \<times> Accuracy" where
  "train_batch L s batch =
     (let (w0, loss_meter, accuracy_metric) = s;
          (X_batch, y_batch) = batch;
          (w, outputs) = model_call L w0 X_batch;
          loss = criterion L outputs y_batch;
          w = log Criterion w;
          w = zero_grad L w;
          w = backward L (gradient L (params w0) (buffers w0) X_batch y_batch) w;
          w = optimizer_step L w;
          loss_meter = update loss_meter loss (length X_batch);
          w = log MeterUpdate w;
          preds = map argmax outputs;
          w = log Argmax w;
          accuracy_metric = Accuracy_update accuracy_metric preds y_batch;
          w = log MetricUpdate w;
          w = log MetricCompute w
      in (w, loss_meter, accuracy_metric))"

text \<open>
  \<open>train_one_epoch(model, dataloader, criterion, optimizer, device, epoch, accuracy_metric)\<close>.
  The model and the optimizer are the world, the loss and the update rule are in the
  library record, and the metric object is passed and returned. \<open>epoch\<close> only labels the
  progress bar.
\<close>

definition train_one_epoch ::
  "('p, 'b, 'g, 'o, 'a) torch \<Rightarrow> 'a batch list \<Rightarrow> nat \<Rightarrow> ('p, 'b, 'g, 'o) world \<times> Accuracy
     \<Rightarrow> ('p, 'b, 'g, 'o) world \<times> Accuracy \<times> (real \<times> real)" where
  "train_one_epoch L dataloader epoch s =
     (let (w, accuracy_metric) = s;
          w = model_train w;
          loss_meter = AverageMeter_init;
          accuracy_metric = Accuracy_reset;
          w = log MetricReset w;
          (w, loss_meter, accuracy_metric) =
             foldl (train_batch L) (w, loss_meter, accuracy_metric) dataloader;
          avg_loss = avg loss_meter;
          avg_accuracy = Accuracy_compute accuracy_metric;
          w = log MetricCompute w
      in (w, accuracy_metric, (avg_loss, avg_accuracy)))"

text \<open>
  The body of the loop of \<open>validate\<close>, which runs under \<open>torch.no_grad()\<close>:
  \<^verbatim>\<open>
            outputs = model(X_batch)
            loss = criterion(outputs, y_batch)
            loss_meter.update(loss.item(), X_batch.size(0))
            preds = outputs.argmax(dim=1)
            accuracy_metric.update(preds, y_batch)
            progress_bar.set_postfix(loss=loss_meter.avg)
  \<close>
\<close>

definition val_batch ::
  "('p, 'b, 'g, 'o, 'a) torch \<Rightarrow> ('p, 'b, 'g, 'o) world \<times> AverageMeter \<times> Accuracy \<Rightarrow> 'a batch
     \<Rightarrow> ('p, 'b, 'g, 'o) world \<times> AverageMeter \<times> Accuracy" where
  "val_batch L s batch =
     (let (w0, loss_meter, accuracy_metric) = s;
          (X_batch, y_batch) = batch;
          (w, outputs) = model_call L w0 X_batch;
          loss = criterion L outputs y_batch;
          w = log Criterion w;
          loss_meter = update loss_meter loss (length X_batch);
          w = log MeterUpdate w;
          preds = map argmax outputs;
          w = log Argmax w;
          accuracy_metric = Accuracy_update accuracy_metric preds y_batch;
          w = log MetricUpdate w
      in (w, loss_meter, accuracy_metric))"

definition validate ::
  "('p, 'b, 'g, 'o, 'a) torch \<Rightarrow> 'a batch list \<Rightarrow> nat \<Rightarrow> ('p, 'b, 'g, 'o) world \<times> Accuracy
     \<Rightarrow> ('p, 'b, 'g, 'o) world \<times> Accuracy \<times> (real \<times> real)" where
  "validate L dataloader epoch s =
     (let (w, accuracy_metric) = s;
          w = model_eval w;
          loss_meter = AverageMeter_init;
          accuracy_metric = Accuracy_reset;
          w = log MetricReset w;
          (w, loss_meter, accuracy_metric) =
             foldl (val_batch L) (w, loss_meter, accuracy_metric) dataloader;
          avg_loss = avg loss_meter;
          avg_accuracy = Accuracy_compute accuracy_metric;
          w = log MetricCompute w
      in (w, accuracy_metric, (avg_loss, avg_accuracy)))"

text \<open>
  The state of a training pass after its first \<open>k\<close> batches (the world, the loss meter
  and the accuracy metric), the predictions the model makes for batch \<open>k\<close> in that state,
  and their loss.
\<close>

definition train_state ::
  "('p, 'b, 'g, 'o, 'a) torch \<Rightarrow> ('p, 'b, 'g, 'o) world \<Rightarrow> 'a batch list \<Rightarrow> nat
     \<Rightarrow> ('p, 'b, 'g, 'o) world \<times> AverageMeter \<times> Accuracy" where
  "train_state L w bs k =
     foldl (train_batch L) (log MetricReset (model_train w), AverageMeter_init, Accuracy_reset)
       (take k bs)"

definition train_world ::
  "('p, 'b, 'g, 'o, 'a) torch \<Rightarrow> ('p, 'b, 'g, 'o) world \<Rightarrow> 'a batch list \<Rightarrow> nat
     \<Rightarrow> ('p, 'b, 'g, 'o) world" where
  "train_world L w bs k = fst (train_state L w bs k)"

definition batch_outputs ::
  "('p, 'b, 'g, 'o, 'a) torch \<Rightarrow> ('p, 'b, 'g, 'o) world \<Rightarrow> 'a batch list \<Rightarrow> nat
     \<Rightarrow> real list list" where
  "batch_outputs L w bs k = snd (model_call L (train_world L w bs k) (fst (bs ! k)))"

definition batch_loss ::
  "('p, 'b, 'g, 'o, 'a) torch \<Rightarrow> ('p, 'b, 'g, 'o) world \<Rightarrow> 'a batch list \<Rightarrow> nat \<Rightarrow> real" where
  "batch_loss L w bs k = criterion L (batch_outputs L w bs k) (snd (bs ! k))"

text \<open>The library calls of one training batch and of one validation batch.\<close>

definition batch_calls :: "call list" where
  "batch_calls = [Forward, Criterion, ZeroGrad, Backward, OptimizerStep, MeterUpdate, Argmax,
     MetricUpdate, MetricCompute]"

definition val_calls :: "call list" where
  "val_calls = [Forward, Criterion, MeterUpdate, Argmax, MetricUpdate]"

subsection \<open>A small concrete library for the examples\<close>

text \<open>
  Samples are numbers and there are two classes. The parameter is a counter that every
  optimizer step advances by the accumulated gradient, each backward pass adds 1 to the
  gradient, and with parameter \<open>p\<close> the model gives class 0 to exactly the samples below
  \<open>thr ! p\<close> and class 1 to the others. The loss is constantly one half.
\<close>

definition stub :: "nat list \<Rightarrow> (nat, unit, nat, nat, nat) torch" where
  "stub thr =
     \<lparr>forward_train =
        (\<lambda>p b X. (b, map (\<lambda>x. if p < length thr \<and> x < thr ! p then [1, 0] else [0, 1]) X)),
      forward_eval =
        (\<lambda>p b X. map (\<lambda>x. if p < length thr \<and> x < thr ! p then [1, 0] else [0, 1]) X),
      criterion = (\<lambda>outputs y. 1 / 2),
      gradient = (\<lambda>p b X y. 1),
      accumulate = (\<lambda>g h. g + h),
      cleared = 0,
      step = (\<lambda>os p g. (Suc os, p + g))\<rparr>"

text \<open>A world that still holds gradients (5) from earlier work.\<close>

definition stub_world :: "(nat, unit, nat, nat) world" where
  "stub_world =
     \<lparr>params = 0, buffers = (), grads = 5, training = False, opt_state = 0, calls = []\<rparr>"

section \<open>Training driver: the training script\<close>

text \<open>
  \<^verbatim>\<open>
  writer = SummaryWriter()
  num_epochs = 20
  best_val_acc = 0.0
  for epoch in range(num_epochs):
      train_loss, train_acc = train_one_epoch(model, train_loader, criterion, optimizer,
                                              device, epoch, train_accuracy)
      val_loss, val_acc = validate(model, val_loader, criterion, device, epoch, val_accuracy)
      writer.add_scalar('Loss/Train', train_loss, epoch)
      writer.add_scalar('Accuracy/Train', train_acc, epoch)
      writer.add_scalar('Loss/Validation', val_loss, epoch)
      writer.add_scalar('Accuracy/Validation', val_acc, epoch)
      print(f"Epoch [{epoch+1}/{num_epochs}], Train Loss: {train_loss:.4f}, "
            f"Train Accuracy: {train_acc:.4f}, Val Loss: {val_loss:.4f}, "
            f"Val Accuracy: {val_acc:.4f}")
      if val_acc > best_val_acc:
          best_val_acc = val_acc
          torch.save(model.state_dict(), "best_model.pth")
          print(f"Best model saved at epoch {epoch+1} with validation accuracy: "
                f"{best_val_acc:.4f}")
  writer.close()
  \<close>
  What the script sends out is a sequence of events: scalars to the log writer, lines to
  the console, the state dictionary to a file. The number of epochs is a parameter here
  (the literal 20 in the notebook). The training loader shuffles, so the stream of
  batches it yields is a function of the epoch; the validation loader yields the same
  stream every time. The format \<open>.4f\<close> of a float is a parameter \<open>fmt\<close>; \<open>str_nat\<close> writes
  an integer in decimal.
\<close>

datatype ('p, 'b) event =
  AddScalar string real nat
  | Print string
  | Save "'p \<times> 'b" string
  | WriterClose

record ('p, 'b, 'g, 'o) driver =
  env :: "('p, 'b, 'g, 'o) world"
  train_accuracy :: Accuracy
  val_accuracy :: Accuracy
  best_val_acc :: real

fun str_nat :: "nat \<Rightarrow> string" where
  "str_nat n =
     (if n < 10 then [''0123456789'' ! n]
      else str_nat (n div 10) @ [''0123456789'' ! (n mod 10)])"

declare str_nat.simps [simp del]

definition epoch_line ::
  "(real \<Rightarrow> string) \<Rightarrow> nat \<Rightarrow> nat \<Rightarrow> real \<Rightarrow> real \<Rightarrow> real \<Rightarrow> real \<Rightarrow> string" where
  "epoch_line fmt epoch num_epochs train_loss train_acc val_loss val_acc =
     ''Epoch ['' @ str_nat (epoch + 1) @ ''/'' @ str_nat num_epochs
       @ ''], Train Loss: '' @ fmt train_loss @ '', Train Accuracy: '' @ fmt train_acc
       @ '', '' @ ''Val Loss: '' @ fmt val_loss @ '', Val Accuracy: '' @ fmt val_acc"

definition best_line :: "(real \<Rightarrow> string) \<Rightarrow> nat \<Rightarrow> real \<Rightarrow> string" where
  "best_line fmt epoch best =
     ''Best model saved at epoch '' @ str_nat (epoch + 1)
       @ '' with validation accuracy: '' @ fmt best"

text \<open>The body of the loop: the events of one epoch and the state after it.\<close>

definition epoch_body ::
  "('p, 'b, 'g, 'o, 'a) torch \<Rightarrow> (real \<Rightarrow> string) \<Rightarrow> (nat \<Rightarrow> 'a batch list) \<Rightarrow> 'a batch list
     \<Rightarrow> nat \<Rightarrow> nat \<Rightarrow> ('p, 'b, 'g, 'o) driver
     \<Rightarrow> ('p, 'b) event list \<times> ('p, 'b, 'g, 'o) driver" where
  "epoch_body L fmt train_loader val_loader num_epochs epoch d =
     (let (w, ta, (train_loss, train_acc)) =
            train_one_epoch L (train_loader epoch) epoch (env d, train_accuracy d);
          (w, va, (val_loss, val_acc)) = validate L val_loader epoch (w, val_accuracy d);
          d = d\<lparr>env := w, train_accuracy := ta, val_accuracy := va\<rparr>;
          out = [AddScalar ''Loss/Train'' train_loss epoch,
                 AddScalar ''Accuracy/Train'' train_acc epoch,
                 AddScalar ''Loss/Validation'' val_loss epoch,
                 AddScalar ''Accuracy/Validation'' val_acc epoch,
                 Print (epoch_line fmt epoch num_epochs train_loss train_acc val_loss val_acc)]
      in if val_acc > best_val_acc d
         then (out @ [Save (params w, buffers w) ''best_model.pth'',
                      Print (best_line fmt epoch val_acc)],
               d\<lparr>best_val_acc := val_acc\<rparr>)
         else (out, d))"

text \<open>The \<open>for\<close> loop over a range of epochs; it collects the events epoch by epoch.\<close>

definition training_loop ::
  "('p, 'b, 'g, 'o, 'a) torch \<Rightarrow> (real \<Rightarrow> string) \<Rightarrow> (nat \<Rightarrow> 'a batch list) \<Rightarrow> 'a batch list
     \<Rightarrow> nat \<Rightarrow> nat list \<Rightarrow> ('p, 'b, 'g, 'o) driver
     \<Rightarrow> ('p, 'b) event list list \<times> ('p, 'b, 'g, 'o) driver" where
  "training_loop L fmt train_loader val_loader num_epochs epochs d0 =
     foldl (\<lambda>(evs, d) epoch.
              (let (ev, d') = epoch_body L fmt train_loader val_loader num_epochs epoch d
               in (evs @ [ev], d')))
       ([], d0) epochs"

text \<open>The state before the first epoch (\<open>best_val_acc = 0.0\<close>) and the loop from it.\<close>

definition initial ::
  "('p, 'b, 'g, 'o) world \<Rightarrow> Accuracy \<Rightarrow> Accuracy \<Rightarrow> ('p, 'b, 'g, 'o) driver" where
  "initial w ta va = \<lparr>env = w, train_accuracy = ta, val_accuracy = va, best_val_acc = 0\<rparr>"

definition run ::
  "('p, 'b, 'g, 'o, 'a) torch \<Rightarrow> (real \<Rightarrow> string) \<Rightarrow> (nat \<Rightarrow> 'a batch list) \<Rightarrow> 'a batch list
     \<Rightarrow> nat \<Rightarrow> ('p, 'b, 'g, 'o) driver
     \<Rightarrow> ('p, 'b) event list list \<times> ('p, 'b, 'g, 'o) driver" where
  "run L fmt train_loader val_loader num_epochs d0 =
     training_loop L fmt train_loader val_loader num_epochs [0..<num_epochs] d0"

definition training_script ::
  "('p, 'b, 'g, 'o, 'a) torch \<Rightarrow> (real \<Rightarrow> string) \<Rightarrow> (nat \<Rightarrow> 'a batch list) \<Rightarrow> 'a batch list
     \<Rightarrow> nat \<Rightarrow> ('p, 'b, 'g, 'o) world \<Rightarrow> Accuracy \<Rightarrow> Accuracy
     \<Rightarrow> ('p, 'b) event list \<times> ('p, 'b, 'g, 'o) driver" where
  "training_script L fmt train_loader val_loader num_epochs w ta va =
     (let (evs, d) = run L fmt train_loader val_loader num_epochs (initial w ta va)
      in (concat evs @ [WriterClose], d))"

text \<open>
  Reading the events of one epoch: the validation accuracy sent to the log writer,
  whether the checkpoint file was written, and the console lines of the form
  \<open>Epoch [i/N], ...\<close>.
\<close>

fun val_acc_of :: "('p, 'b) event list \<Rightarrow> real" where
  "val_acc_of [] = 0"
| "val_acc_of (AddScalar tag v e # evs) =
     (if tag = ''Accuracy/Validation'' then v else val_acc_of evs)"
| "val_acc_of (x # evs) = val_acc_of evs"

fun is_Save :: "('p, 'b) event \<Rightarrow> bool" where
  "is_Save (Save s path) = True"
| "is_Save x = False"

definition wrote_checkpoint :: "('p, 'b) event list \<Rightarrow> bool" where
  "wrote_checkpoint evs = list_ex is_Save evs"

fun console :: "('p, 'b) event list \<Rightarrow> string list" where
  "console [] = []"
| "console (Print s # evs) = s # console evs"
| "console (x # evs) = console evs"

definition is_epoch_line :: "string \<Rightarrow> bool" where
  "is_epoch_line s = (take 7 s = ''Epoch ['')"

fun is_mode_call :: "call \<Rightarrow> bool" where
  "is_mode_call ModelTrain = True"
| "is_mode_call ModelEval = True"
| "is_mode_call c = False"

text \<open>The best of the accuracies of a trace, starting from the initial 0.\<close>

definition running_best :: "real list \<Rightarrow> real" where
  "running_best vs = foldl max 0 vs"

text \<open>
  The two passes of epoch \<open>epoch\<close> from the driver state \<open>d\<close>, and the driver state after
  the first \<open>k\<close> epochs.
\<close>

definition epoch_train ::
  "('p, 'b, 'g, 'o, 'a) torch \<Rightarrow> (nat \<Rightarrow> 'a batch list) \<Rightarrow> nat \<Rightarrow> ('p, 'b, 'g, 'o) driver
     \<Rightarrow> ('p, 'b, 'g, 'o) world \<times> Accuracy \<times> (real \<times> real)" where
  "epoch_train L train_loader epoch d =
     train_one_epoch L (train_loader epoch) epoch (env d, train_accuracy d)"

definition epoch_val ::
  "('p, 'b, 'g, 'o, 'a) torch \<Rightarrow> (nat \<Rightarrow> 'a batch list) \<Rightarrow> 'a batch list \<Rightarrow> nat
     \<Rightarrow> ('p, 'b, 'g, 'o) driver \<Rightarrow> ('p, 'b, 'g, 'o) world \<times> Accuracy \<times> (real \<times> real)" where
  "epoch_val L train_loader val_loader epoch d =
     validate L val_loader epoch (fst (epoch_train L train_loader epoch d), val_accuracy d)"

definition driver_after ::
  "('p, 'b, 'g, 'o, 'a) torch \<Rightarrow> (real \<Rightarrow> string) \<Rightarrow> (nat \<Rightarrow> 'a batch list) \<Rightarrow> 'a batch list
     \<Rightarrow> nat \<Rightarrow> nat \<Rightarrow> ('p, 'b, 'g, 'o) driver \<Rightarrow> ('p, 'b, 'g, 'o) driver" where
  "driver_after L fmt train_loader val_loader num_epochs k d0 =
     snd (training_loop L fmt train_loader val_loader num_epochs [0..<k] d0)"

text \<open>The four metrics of an epoch: train loss, train accuracy, validation loss and
  validation accuracy.\<close>

definition epoch_metrics ::
  "('p, 'b, 'g, 'o, 'a) torch \<Rightarrow> (nat \<Rightarrow> 'a batch list) \<Rightarrow> 'a batch list \<Rightarrow> nat
     \<Rightarrow> ('p, 'b, 'g, 'o) driver \<Rightarrow> real \<times> real \<times> real \<times> real" where
  "epoch_metrics L train_loader val_loader epoch d =
     (let (w, ta, (train_loss, train_acc)) = epoch_train L train_loader epoch d;
          (w, va, (val_loss, val_acc)) = epoch_val L train_loader val_loader epoch d
      in (train_loss, train_acc, val_loss, val_acc))"

text \<open>
  Data for the example library: a validation stream of one batch of twenty samples, all
  of class 0, and a training stream of one batch of one sample in every epoch.
\<close>

definition stub_val :: "nat batch list" where
  "stub_val = [([0, 1, 2, 3, 4, 5, 6, 7, 8, 9, 10, 11, 12, 13, 14, 15, 16, 17, 18, 19],
               [0, 0, 0, 0, 0, 0, 0, 0, 0, 0, 0, 0, 0, 0, 0, 0, 0, 0, 0, 0])]"

definition stub_train :: "nat \<Rightarrow> nat batch list" where
  "stub_train epoch = [([0], [0])]"

section \<open>Residual network: layers and shapes\<close>

text \<open>
  The layers are those of the tensor library, built by the constructors the notebook
  calls: \<open>nn.Conv2d(in_channels, out_channels, kernel_size, stride, padding)\<close>,
  \<open>nn.BatchNorm2d(num_features)\<close>, \<open>nn.ReLU\<close>,
  \<open>nn.MaxPool2d(kernel_size, stride, padding)\<close>, \<open>nn.AdaptiveAvgPool2d((h, w))\<close> and
  \<open>nn.Linear(in_features, out_features)\<close>. A layer is its configuration; what it does to
  the shape of a batch \<open>(N, C, H, W)\<close> is the shape contract of the library's
  documentation: a convolution or pooling window of size \<open>k\<close> with stride \<open>s\<close> and padding
  \<open>p\<close> turns an extent \<open>h\<close> into \<open>(h + 2p - k) div s + 1\<close> and needs \<open>k \<le> h + 2p\<close>; a layer
  that is given channels or features other than those it was built for raises, which is
  \<open>None\<close> here. A module is in training mode when it is made and after \<open>model.train()\<close>,
  and in evaluation mode after \<open>model.eval()\<close>; its flag \<open>self.training\<close> is the first
  argument, \<open>is_training\<close>, of every forward pass on shapes. It matters to batch
  normalization alone: in training
  mode the library computes the statistics of the batch and raises
  (\<open>ValueError: Expected more than 1 value per channel when training\<close>) when a channel holds
  a single value, that is when \<open>N * H * W = 1\<close>. Inputs without a batch dimension are outside
  this model.
\<close>

datatype layer =
  Conv2d nat nat nat nat nat
  | BatchNorm2d nat
  | ReLU
  | MaxPool2d nat nat nat
  | AdaptiveAvgPool2d nat nat
  | Linear nat nat

type_synonym shape = "nat list"

fun layer_shape :: "bool \<Rightarrow> layer \<Rightarrow> shape \<Rightarrow> shape option" where
  "layer_shape is_training (Conv2d in_channels out_channels kernel_size stride padding)
       [n, c, h, w] =
     (if c = in_channels \<and> 0 < stride \<and> kernel_size \<le> h + 2 * padding
         \<and> kernel_size \<le> w + 2 * padding
      then Some [n, out_channels, (h + 2 * padding - kernel_size) div stride + 1,
                 (w + 2 * padding - kernel_size) div stride + 1]
      else None)"
| "layer_shape is_training (BatchNorm2d num_features) [n, c, h, w] =
     (if c = num_features \<and> \<not> (is_training \<and> n * h * w = 1) then Some [n, c, h, w]
      else None)"
| "layer_shape is_training ReLU x = Some x"
| "layer_shape is_training (MaxPool2d kernel_size stride padding) [n, c, h, w] =
     (if 0 < stride \<and> 2 * padding \<le> kernel_size \<and> kernel_size \<le> h + 2 * padding
         \<and> kernel_size \<le> w + 2 * padding
      then Some [n, c, (h + 2 * padding - kernel_size) div stride + 1,
                 (w + 2 * padding - kernel_size) div stride + 1]
      else None)"
| "layer_shape is_training (AdaptiveAvgPool2d oh ow) [n, c, h, w] =
     (if 0 < c \<and> 0 < h \<and> 0 < w then Some [n, c, oh, ow] else None)"
| "layer_shape is_training (Linear in_features out_features) [n, f] =
     (if f = in_features then Some [n, out_features] else None)"
| "layer_shape is_training l x = None"

text \<open>\<open>nn.Sequential\<close> of layers: one after the other.\<close>

fun Sequential_shape :: "bool \<Rightarrow> layer list \<Rightarrow> shape \<Rightarrow> shape option" where
  "Sequential_shape is_training [] x = Some x"
| "Sequential_shape is_training (l # ls) x =
     layer_shape is_training l x \<bind> Sequential_shape is_training ls"

text \<open>
  \<open>out += identity\<close> adds in place: \<open>identity\<close> must be broadcastable to the shape of
  \<open>out\<close> (every extent, aligned from the right, is equal or 1), and \<open>out\<close> keeps its shape.
\<close>

definition iadd_shape :: "shape \<Rightarrow> shape \<Rightarrow> shape option" where
  "iadd_shape out identity =
     (if length identity \<le> length out
         \<and> list_all (\<lambda>(a, b). a = b \<or> a = 1) (zip (rev identity) (rev out))
      then Some out else None)"

text \<open>\<open>torch.flatten(x, 1)\<close> keeps the batch dimension and merges the others.\<close>

fun flatten_shape :: "shape \<Rightarrow> shape option" where
  "flatten_shape (n # d # ds) = Some [n, prod_list (d # ds)]"
| "flatten_shape x = None"

text \<open>
  \<^verbatim>\<open>
  class BasicBlock(nn.Module):
      expansion = 1
      def __init__(self, in_channels, out_channels, stride=1, downsample=None):
          self.conv1 = nn.Conv2d(in_channels, out_channels, kernel_size=3, stride=stride,
                                 padding=1, bias=False)
          self.bn1 = nn.BatchNorm2d(out_channels)
          self.relu = nn.ReLU(inplace=True)
          self.conv2 = nn.Conv2d(out_channels, out_channels, kernel_size=3, stride=1,
                                 padding=1, bias=False)
          self.bn2 = nn.BatchNorm2d(out_channels)
          self.downsample = downsample
      def forward(self, x):
          identity = x
          out = self.conv1(x); out = self.bn1(out); out = self.relu(out)
          out = self.conv2(out); out = self.bn2(out)
          if self.downsample is not None:
              identity = self.downsample(x)
          out += identity
          out = self.relu(out)
          return out
  \<close>
\<close>

record BasicBlock =
  conv1 :: layer
  bn1 :: layer
  relu :: layer
  conv2 :: layer
  bn2 :: layer
  downsample :: "layer list option"

definition expansion :: nat where
  "expansion = 1"

definition BasicBlock_init :: "nat \<Rightarrow> nat \<Rightarrow> nat \<Rightarrow> layer list option \<Rightarrow> BasicBlock" where
  "BasicBlock_init in_channels out_channels stride downsample' =
     \<lparr>conv1 = Conv2d in_channels out_channels 3 stride 1,
      bn1 = BatchNorm2d out_channels,
      relu = ReLU,
      conv2 = Conv2d out_channels out_channels 3 1 1,
      bn2 = BatchNorm2d out_channels,
      downsample = downsample'\<rparr>"

definition BasicBlock_forward_shape :: "bool \<Rightarrow> BasicBlock \<Rightarrow> shape \<Rightarrow> shape option" where
  "BasicBlock_forward_shape is_training b x =
     do {
       let identity = x;
       out \<leftarrow> layer_shape is_training (conv1 b) x;
       out \<leftarrow> layer_shape is_training (bn1 b) out;
       out \<leftarrow> layer_shape is_training (relu b) out;
       out \<leftarrow> layer_shape is_training (conv2 b) out;
       out \<leftarrow> layer_shape is_training (bn2 b) out;
       identity \<leftarrow> (case downsample b of None \<Rightarrow> Some identity
                     | Some d \<Rightarrow> Sequential_shape is_training d x);
       out \<leftarrow> iadd_shape out identity;
       layer_shape is_training (relu b) out
     }"

text \<open>A stage is an \<open>nn.Sequential\<close> of blocks.\<close>

fun blocks_shape :: "bool \<Rightarrow> BasicBlock list \<Rightarrow> shape \<Rightarrow> shape option" where
  "blocks_shape is_training [] x = Some x"
| "blocks_shape is_training (b # bs) x =
     BasicBlock_forward_shape is_training b x \<bind> blocks_shape is_training bs"

text \<open>
  \<^verbatim>\<open>
      def _make_layer(self, block, out_channels, blocks, stride=1):
          downsample = None
          if stride != 1 or self.in_channels != out_channels * block.expansion:
              downsample = nn.Sequential(
                  nn.Conv2d(self.in_channels, out_channels * block.expansion,
                            kernel_size=1, stride=stride, bias=False),
                  nn.BatchNorm2d(out_channels * block.expansion))
          layers = []
          layers.append(block(self.in_channels, out_channels, stride, downsample))
          self.in_channels = out_channels * block.expansion
          for _ in range(1, blocks):
              layers.append(block(self.in_channels, out_channels))
          return nn.Sequential(*layers)
  \<close>
  The method reads and writes the field \<open>self.in_channels\<close>: the function takes its value
  and returns the new one with the stage. The block class passed in the notebook is
  \<open>BasicBlock\<close>.
\<close>

definition make_layer :: "nat \<Rightarrow> nat \<Rightarrow> nat \<Rightarrow> nat \<Rightarrow> nat \<times> BasicBlock list" where
  "make_layer in_channels out_channels blocks stride =
     (let downsample' =
            (if stride \<noteq> 1 \<or> in_channels \<noteq> out_channels * expansion
             then Some [Conv2d in_channels (out_channels * expansion) 1 stride 0,
                        BatchNorm2d (out_channels * expansion)]
             else None);
          layers = [BasicBlock_init in_channels out_channels stride downsample'];
          in_channels = out_channels * expansion;
          layers = layers @ map (\<lambda>_. BasicBlock_init in_channels out_channels 1 None) [1..<blocks]
      in (in_channels, layers))"

text \<open>
  \<^verbatim>\<open>
  class ResNet(nn.Module):
      def __init__(self, block, layers, num_classes=10):
          self.in_channels = 64
          self.conv1 = nn.Conv2d(3, 64, kernel_size=7, stride=2, padding=3, bias=False)
          self.bn1 = nn.BatchNorm2d(64)
          self.relu = nn.ReLU(inplace=True)
          self.maxpool = nn.MaxPool2d(kernel_size=3, stride=2, padding=1)
          self.layer1 = self._make_layer(block, 64, layers[0])
          self.layer2 = self._make_layer(block, 128, layers[1], stride=2)
          self.layer3 = self._make_layer(block, 256, layers[2], stride=2)
          self.layer4 = self._make_layer(block, 512, layers[3], stride=2)
          self.avgpool = nn.AdaptiveAvgPool2d((1, 1))
          self.fc = nn.Linear(512 * block.expansion, num_classes)
      def forward(self, x):
          x = self.conv1(x); x = self.bn1(x); x = self.relu(x); x = self.maxpool(x)
          x = self.layer1(x); x = self.layer2(x); x = self.layer3(x); x = self.layer4(x)
          x = self.avgpool(x); x = torch.flatten(x, 1); x = self.fc(x)
          return x

  def resnet18():
      return ResNet(BasicBlock, [2, 2, 2, 2])
  \<close>
  A list of fewer than four counts makes \<open>layers[3]\<close> raise. The forward pass is written
  in its three parts: the stem, the four stages, the head.
\<close>

record ResNet =
  conv1 :: layer
  bn1 :: layer
  relu :: layer
  maxpool :: layer
  layer1 :: "BasicBlock list"
  layer2 :: "BasicBlock list"
  layer3 :: "BasicBlock list"
  layer4 :: "BasicBlock list"
  avgpool :: layer
  fc :: layer

definition ResNet_init :: "nat list \<Rightarrow> nat \<Rightarrow> ResNet option" where
  "ResNet_init layers num_classes =
     (if length layers < 4 then None
      else
        (let in_channels = 64;
             (in_channels, l1) = make_layer in_channels 64 (layers ! 0) 1;
             (in_channels, l2) = make_layer in_channels 128 (layers ! 1) 2;
             (in_channels, l3) = make_layer in_channels 256 (layers ! 2) 2;
             (in_channels, l4) = make_layer in_channels 512 (layers ! 3) 2
         in Some \<lparr>ResNet.conv1 = Conv2d 3 64 7 2 3,
                  bn1 = BatchNorm2d 64,
                  relu = ReLU,
                  maxpool = MaxPool2d 3 2 1,
                  layer1 = l1, layer2 = l2, layer3 = l3, layer4 = l4,
                  avgpool = AdaptiveAvgPool2d 1 1,
                  fc = Linear (512 * expansion) num_classes\<rparr>))"

definition ResNet_stem_shape :: "bool \<Rightarrow> ResNet \<Rightarrow> shape \<Rightarrow> shape option" where
  "ResNet_stem_shape is_training net x =
     do {
       x \<leftarrow> layer_shape is_training (ResNet.conv1 net) x;
       x \<leftarrow> layer_shape is_training (ResNet.bn1 net) x;
       x \<leftarrow> layer_shape is_training (ResNet.relu net) x;
       layer_shape is_training (maxpool net) x
     }"

definition ResNet_stages_shape :: "bool \<Rightarrow> ResNet \<Rightarrow> shape \<Rightarrow> shape option" where
  "ResNet_stages_shape is_training net x =
     do {
       x \<leftarrow> blocks_shape is_training (layer1 net) x;
       x \<leftarrow> blocks_shape is_training (layer2 net) x;
       x \<leftarrow> blocks_shape is_training (layer3 net) x;
       blocks_shape is_training (layer4 net) x
     }"

definition ResNet_head_shape :: "bool \<Rightarrow> ResNet \<Rightarrow> shape \<Rightarrow> shape option" where
  "ResNet_head_shape is_training net x =
     do {
       x \<leftarrow> layer_shape is_training (avgpool net) x;
       x \<leftarrow> flatten_shape x;
       layer_shape is_training (fc net) x
     }"

definition ResNet_forward_shape :: "bool \<Rightarrow> ResNet \<Rightarrow> shape \<Rightarrow> shape option" where
  "ResNet_forward_shape is_training net x =
     do {
       x \<leftarrow> ResNet_stem_shape is_training net x;
       x \<leftarrow> ResNet_stages_shape is_training net x;
       ResNet_head_shape is_training net x
     }"

definition resnet18 :: "ResNet option" where
  "resnet18 = ResNet_init [2, 2, 2, 2] 10"

section \<open>Forward passes on values\<close>

text \<open>
  On values a tensor is the list of its entries (floats, read as real numbers), and a
  layer with its learned weights is a function on tensors: the records below hold, for
  every layer field of a module, the function that layer computes. \<open>torch.relu\<close> replaces
  every entry by its maximum with 0, \<open>out += identity\<close> adds entry by entry (the shapes
  are equal where the model of shapes above lets the addition through without
  broadcasting), and \<open>view\<close> and \<open>torch.flatten\<close> rearrange the shape and leave the
  entries as they are.
\<close>

type_synonym tensor = "real list"

definition torch_relu :: "tensor \<Rightarrow> tensor" where
  "torch_relu x = map (max 0) x"

definition iadd :: "tensor \<Rightarrow> tensor \<Rightarrow> tensor" where
  "iadd out identity = map2 (+) out identity"

definition view :: "nat \<Rightarrow> tensor \<Rightarrow> tensor" where
  "view k x = x"

definition flatten :: "tensor \<Rightarrow> tensor" where
  "flatten x = x"

record BasicBlock_fn =
  conv1 :: "tensor \<Rightarrow> tensor"
  bn1 :: "tensor \<Rightarrow> tensor"
  relu :: "tensor \<Rightarrow> tensor"
  conv2 :: "tensor \<Rightarrow> tensor"
  bn2 :: "tensor \<Rightarrow> tensor"
  downsample :: "(tensor \<Rightarrow> tensor) option"

definition BasicBlock_forward :: "BasicBlock_fn \<Rightarrow> tensor \<Rightarrow> tensor" where
  "BasicBlock_forward b x =
     (let identity = x;
          out = BasicBlock_fn.conv1 b x;
          out = BasicBlock_fn.bn1 b out;
          out = BasicBlock_fn.relu b out;
          out = BasicBlock_fn.conv2 b out;
          out = BasicBlock_fn.bn2 b out;
          identity = (case BasicBlock_fn.downsample b of None \<Rightarrow> identity | Some d \<Rightarrow> d x);
          out = iadd out identity;
          out = BasicBlock_fn.relu b out
      in out)"

text \<open>The transform of the block without its shortcut.\<close>

definition residual :: "BasicBlock_fn \<Rightarrow> tensor \<Rightarrow> tensor" where
  "residual b x =
     BasicBlock_fn.bn2 b (BasicBlock_fn.conv2 b
       (BasicBlock_fn.relu b (BasicBlock_fn.bn1 b (BasicBlock_fn.conv1 b x))))"

definition Sequential_forward :: "BasicBlock_fn list \<Rightarrow> tensor \<Rightarrow> tensor" where
  "Sequential_forward bs x = fold BasicBlock_forward bs x"

record ResNet_fn =
  conv1 :: "tensor \<Rightarrow> tensor"
  bn1 :: "tensor \<Rightarrow> tensor"
  relu :: "tensor \<Rightarrow> tensor"
  maxpool :: "tensor \<Rightarrow> tensor"
  layer1 :: "BasicBlock_fn list"
  layer2 :: "BasicBlock_fn list"
  layer3 :: "BasicBlock_fn list"
  layer4 :: "BasicBlock_fn list"
  avgpool :: "tensor \<Rightarrow> tensor"
  fc :: "tensor \<Rightarrow> tensor"

definition ResNet_forward :: "ResNet_fn \<Rightarrow> tensor \<Rightarrow> tensor" where
  "ResNet_forward net x =
     (let x = ResNet_fn.conv1 net x;
          x = ResNet_fn.bn1 net x;
          x = ResNet_fn.relu net x;
          x = ResNet_fn.maxpool net x;
          x = Sequential_forward (ResNet_fn.layer1 net) x;
          x = Sequential_forward (ResNet_fn.layer2 net) x;
          x = Sequential_forward (ResNet_fn.layer3 net) x;
          x = Sequential_forward (ResNet_fn.layer4 net) x;
          x = ResNet_fn.avgpool net x;
          x = flatten x;
          x = ResNet_fn.fc net x
      in x)"

text \<open>
  The two definitions of the class \<open>SimpleCNN\<close>. The first:
  \<^verbatim>\<open>
      def forward(self, x):
          x = self.pool(torch.relu(self.conv1(x)))
          x = self.pool(torch.relu(self.conv2(x)))
          x = x.view(-1, 64 * 8 * 8)
          x = torch.relu(self.fc1(x))
          x = self.fc2(x)
          return x
  \<close>
  The second, which replaces it in the notebook (its \<open>print\<close> calls write the shape after
  each step to the console and change no value; they are left out):
  \<^verbatim>\<open>
      def forward(self, x):
          x = torch.relu(self.conv1(x))
          x = self.pool(x)
          x = torch.relu(self.conv2(x))
          x = self.pool(x)
          x = x.view(-1, 64*8*8) # flatten
          x = torch.relu(self.fc1(x))
          x = torch.relu(self.fc2(x))
          return x
  \<close>
\<close>

record SimpleCNN_fn =
  conv1 :: "tensor \<Rightarrow> tensor"
  conv2 :: "tensor \<Rightarrow> tensor"
  pool :: "tensor \<Rightarrow> tensor"
  fc1 :: "tensor \<Rightarrow> tensor"
  fc2 :: "tensor \<Rightarrow> tensor"

definition SimpleCNN_forward :: "SimpleCNN_fn \<Rightarrow> tensor \<Rightarrow> tensor" where
  "SimpleCNN_forward m x =
     (let x = pool m (torch_relu (SimpleCNN_fn.conv1 m x));
          x = pool m (torch_relu (SimpleCNN_fn.conv2 m x));
          x = view (64 * 8 * 8) x;
          x = torch_relu (fc1 m x);
          x = fc2 m x
      in x)"

definition SimpleCNN_forward_redefined :: "SimpleCNN_fn \<Rightarrow> tensor \<Rightarrow> tensor" where
  "SimpleCNN_forward_redefined m x =
     (let x = torch_relu (SimpleCNN_fn.conv1 m x);
          x = pool m x;
          x = torch_relu (SimpleCNN_fn.conv2 m x);
          x = pool m x;
          x = view (64 * 8 * 8) x;
          x = torch_relu (fc1 m x);
          x = torch_relu (fc2 m x)
      in x)"

text \<open>A block and a network of simple layer functions for the examples.\<close>

definition stub_block :: "BasicBlock_fn" where
  "stub_block =
     \<lparr>BasicBlock_fn.conv1 = map (\<lambda>v. 2 * v), bn1 = map (\<lambda>v. v - 3), relu = torch_relu,
      conv2 = map (\<lambda>v. v - 1), bn2 = map (\<lambda>v. - v), downsample = None\<rparr>"

definition stub_resnet :: "ResNet_fn" where
  "stub_resnet =
     \<lparr>ResNet_fn.conv1 = map (\<lambda>v. v + 1), bn1 = map (\<lambda>v. 2 * v), relu = torch_relu,
      maxpool = map (\<lambda>v. v - 3), layer1 = [stub_block], layer2 = [stub_block],
      layer3 = [], layer4 = [], avgpool = map (\<lambda>v. v / 2),
      fc = map (\<lambda>v. v - 100)\<rparr>"

definition stub_cnn :: "SimpleCNN_fn" where
  "stub_cnn =
     \<lparr>SimpleCNN_fn.conv1 = (\<lambda>x. x), conv2 = (\<lambda>x. x), pool = (\<lambda>x. x), fc1 = (\<lambda>x. x),
      fc2 = map (\<lambda>v. 1 - v)\<rparr>"

section \<open>Properties of the metric accumulator\<close>

lemma updates_Nil: "updates m [] = m"
  by (simp add: updates_def)

lemma updates_Cons: "updates m ((v, n) # us) = updates (update m v n) us"
  by (simp add: updates_def)

lemma updates_fields:
  "sum' (updates m us) = sum' m + (\<Sum>(v, n)\<leftarrow>us. v * real n) \<and>
   count (updates m us) = count m + (\<Sum>(v, n)\<leftarrow>us. n)"
proof (induction us arbitrary: m)
  case Nil
  show ?case by (simp add: updates_Nil)
next
  case (Cons u us)
  obtain v n where u: "u = (v, n)" by (cases u)
  show ?case
    unfolding u updates_Cons using Cons.IH [of "update m v n"]
    by (simp add: update_def)
qed

text \<open>
  C3. After \<open>reset()\<close> and any finite sequence of \<open>update(value, weight)\<close> calls, \<open>avg\<close> is
  the weighted mean of the values (the sum of value * weight over the sum of the weights)
  whenever some weight is positive, and 0 otherwise, in particular for the empty
  sequence; \<open>reset()\<close> gives (sum = 0, count = 0), and an update adds value * weight to
  sum and weight to count and changes nothing else (the object has no other field).
\<close>

theorem AverageMeter_weighted_mean:
  "avg (updates reset us) =
     (if 0 < (\<Sum>(v, n)\<leftarrow>us. n)
      then (\<Sum>(v, n)\<leftarrow>us. v * real n) / real (\<Sum>(v, n)\<leftarrow>us. n) else 0)
   \<and> avg (updates reset []) = 0
   \<and> reset = \<lparr>sum' = 0, count = 0\<rparr>
   \<and> AverageMeter_init = reset
   \<and> update m v n = \<lparr>sum' = sum' m + v * real n, count = count m + n\<rparr>"
proof -
  have "sum' (updates reset us) = (\<Sum>(v, n)\<leftarrow>us. v * real n)"
    and "count (updates reset us) = (\<Sum>(v, n)\<leftarrow>us. n)"
    using updates_fields [of reset us] by (simp_all add: reset_def)
  then have "avg (updates reset us) =
     (if 0 < (\<Sum>(v, n)\<leftarrow>us. n)
      then (\<Sum>(v, n)\<leftarrow>us. v * real n) / real (\<Sum>(v, n)\<leftarrow>us. n) else 0)"
    by (simp add: avg_def)
  moreover have "avg (updates reset []) = 0"
    by (simp add: updates_Nil avg_def reset_def)
  moreover have "update m v n = \<lparr>sum' = sum' m + v * real n, count = count m + n\<rparr>"
    by (simp add: update_def)
  ultimately show ?thesis
    by (simp add: reset_def AverageMeter_init_def)
qed

theorem AverageMeter_weighted_mean_witness:
  "avg (updates reset [(2, 3), (4, 1)]) = 5 / 2 \<and> avg (updates reset [(7, 0)]) = 0"
proof -
  have "avg (updates reset [(2, 3), (4, 1)]) = 5 / 2"
    using AverageMeter_weighted_mean [of "[(2, 3), (4, 1)]"] by simp
  moreover have "avg (updates reset [(7, 0)]) = 0"
    using AverageMeter_weighted_mean [of "[(7, 0)]"] by simp
  ultimately show ?thesis by simp
qed

section \<open>Properties of the epoch runner\<close>

lemma log_fields [simp]:
  "calls (log c w) = calls w @ [c]"
  "params (log c w) = params w"
  "buffers (log c w) = buffers w"
  "grads (log c w) = grads w"
  "training (log c w) = training w"
  "opt_state (log c w) = opt_state w"
  by (simp_all add: log_def)

lemma model_call_fields:
  "calls (fst (model_call L w X)) = calls w @ [Forward]"
  "params (fst (model_call L w X)) = params w"
  "grads (fst (model_call L w X)) = grads w"
  "training (fst (model_call L w X)) = training w"
  "opt_state (fst (model_call L w X)) = opt_state w"
  by (simp_all add: model_call_def split_def Let_def)

text \<open>One training batch, field by field.\<close>

lemma train_batch_fields:
  fixes L w0 m a X y
  defines "r \<equiv> train_batch L (w0, m, a) (X, y)"
  defines "out \<equiv> snd (model_call L w0 X)"
  shows "calls (fst r) = calls w0 @ batch_calls"
    and "grads (fst r) = accumulate L (cleared L) (gradient L (params w0) (buffers w0) X y)"
    and "(opt_state (fst r), params (fst r)) = step L (opt_state w0) (params w0) (grads (fst r))"
    and "training (fst r) = training w0"
    and "fst (snd r) = update m (criterion L out y) (length X)"
    and "snd (snd r) = Accuracy_update a (map argmax out) y"
  unfolding r_def out_def
  by (simp_all add: train_batch_def split_def Let_def zero_grad_def backward_def
      optimizer_step_def model_call_fields batch_calls_def)

lemma train_state_Suc:
  "k < length bs \<Longrightarrow> train_state L w bs (Suc k) = train_batch L (train_state L w bs k) (bs ! k)"
  by (simp add: train_state_def take_Suc_conv_app_nth)

lemma train_state_all:
  "foldl (train_batch L) (log MetricReset (model_train w), AverageMeter_init, Accuracy_reset) bs
     = train_state L w bs (length bs)"
  by (simp add: train_state_def)

lemma train_state_inv:
  "k \<le> length bs \<Longrightarrow>
     calls (fst (train_state L w bs k)) =
       calls w @ [ModelTrain, MetricReset] @ concat (replicate k batch_calls)
   \<and> training (fst (train_state L w bs k))
   \<and> fst (snd (train_state L w bs k)) =
        updates reset (map (\<lambda>i. (batch_loss L w bs i, length (fst (bs ! i)))) [0..<k])
   \<and> snd (snd (train_state L w bs k)) =
        Accuracy_updates Accuracy_reset
          (map (\<lambda>i. (map argmax (batch_outputs L w bs i), snd (bs ! i))) [0..<k])"
proof (induction k)
  case 0
  show ?case
    by (simp add: train_state_def model_train_def updates_def Accuracy_updates_def
        AverageMeter_init_def)
next
  case (Suc k)
  then have k: "k < length bs"
    and IH: "calls (fst (train_state L w bs k)) =
        calls w @ [ModelTrain, MetricReset] @ concat (replicate k batch_calls)"
      "training (fst (train_state L w bs k))"
      "fst (snd (train_state L w bs k)) =
        updates reset (map (\<lambda>i. (batch_loss L w bs i, length (fst (bs ! i)))) [0..<k])"
      "snd (snd (train_state L w bs k)) =
        Accuracy_updates Accuracy_reset
          (map (\<lambda>i. (map argmax (batch_outputs L w bs i), snd (bs ! i))) [0..<k])"
    by simp_all
  obtain w0 m a where s: "train_state L w bs k = (w0, m, a)"
    by (cases "train_state L w bs k")
  obtain X y where b: "bs ! k = (X, y)"
    by (cases "bs ! k")
  have out: "snd (model_call L w0 X) = batch_outputs L w bs k"
    by (simp add: batch_outputs_def train_world_def s b)
  have rep: "concat (replicate k batch_calls) @ batch_calls = concat (replicate (Suc k) batch_calls)"
    by (metis append_Nil2 concat.simps concat_append replicate_Suc replicate_append_same)
  show ?case
    unfolding train_state_Suc [OF k] s b
    using IH [unfolded s] train_batch_fields [of L w0 m a X y] rep
    by (simp add: out updates_def Accuracy_updates_def batch_loss_def b del: replicate_Suc)
qed

text \<open>
  C2 (amended). In training mode the epoch runner handles every batch of the stream in
  this order: predictions, scalar loss, reset of the accumulated gradients, gradient
  propagation, parameter update, then the loss meter, the arg-max and the accuracy metric
  (and the progress bar reads the metric). The reset comes before the gradients are
  propagated, not after the update: the gradients a batch leaves behind are its own,
  accumulated on cleared ones, and the update uses them. The pass returns the average of
  the loss meter fed with (loss, batch size) of every batch and the accuracy of the
  arg-max predictions against the labels.
\<close>

theorem train_one_epoch_pass:
  "calls (fst (train_one_epoch L bs epoch (w, a))) =
      calls w @ [ModelTrain, MetricReset]
        @ concat (map (\<lambda>b. [Forward, Criterion, ZeroGrad, Backward, OptimizerStep,
                             MeterUpdate, Argmax, MetricUpdate, MetricCompute]) bs)
        @ [MetricCompute]
   \<and> snd (snd (train_one_epoch L bs epoch (w, a))) =
       (avg (updates reset
          (map (\<lambda>k. (batch_loss L w bs k, length (fst (bs ! k)))) [0..<length bs])),
        Accuracy_compute (Accuracy_updates Accuracy_reset
          (map (\<lambda>k. (map argmax (batch_outputs L w bs k), snd (bs ! k))) [0..<length bs])))
   \<and> (\<forall>k<length bs.
        grads (train_world L w bs (Suc k)) =
          accumulate L (cleared L)
            (gradient L (params (train_world L w bs k)) (buffers (train_world L w bs k))
               (fst (bs ! k)) (snd (bs ! k)))
      \<and> (opt_state (train_world L w bs (Suc k)), params (train_world L w bs (Suc k))) =
          step L (opt_state (train_world L w bs k)) (params (train_world L w bs k))
            (grads (train_world L w bs (Suc k))))"
proof -
  obtain wf mf af where f: "train_state L w bs (length bs) = (wf, mf, af)"
    by (cases "train_state L w bs (length bs)")
  have inv:
    "calls wf = calls w @ [ModelTrain, MetricReset] @ concat (replicate (length bs) batch_calls)"
    "mf = updates reset
       (map (\<lambda>i. (batch_loss L w bs i, length (fst (bs ! i)))) [0..<length bs])"
    "af = Accuracy_updates Accuracy_reset
       (map (\<lambda>i. (map argmax (batch_outputs L w bs i), snd (bs ! i))) [0..<length bs])"
    using train_state_inv [of "length bs" bs L w] by (simp_all add: f)
  have run: "train_one_epoch L bs epoch (w, a) =
      (log MetricCompute wf, af, (avg mf, Accuracy_compute af))"
    by (simp add: train_one_epoch_def train_state_all f)
  have rep: "concat (replicate (length bs) batch_calls) = concat (map (\<lambda>b. batch_calls) bs)"
    by (simp add: map_replicate_const)
  have steps: "grads (train_world L w bs (Suc k)) =
          accumulate L (cleared L)
            (gradient L (params (train_world L w bs k)) (buffers (train_world L w bs k))
               (fst (bs ! k)) (snd (bs ! k)))
      \<and> (opt_state (train_world L w bs (Suc k)), params (train_world L w bs (Suc k))) =
          step L (opt_state (train_world L w bs k)) (params (train_world L w bs k))
            (grads (train_world L w bs (Suc k)))" if k: "k < length bs" for k
  proof -
    obtain w0 m0 a0 where s: "train_state L w bs k = (w0, m0, a0)"
      by (cases "train_state L w bs k")
    obtain X y where b: "bs ! k = (X, y)"
      by (cases "bs ! k")
    show ?thesis
      unfolding train_world_def train_state_Suc [OF k] s b
      using train_batch_fields(2,3) [of L w0 m0 a0 X y] by simp
  qed
  have cs: "calls wf = calls w @ [ModelTrain, MetricReset] @ concat (map (\<lambda>b. batch_calls) bs)"
    using inv(1) rep by simp
  show ?thesis
    using steps by (simp add: run cs inv(2,3) batch_calls_def)
qed

lemmas run_defs = train_one_epoch_def train_batch_def model_train_def log_def model_call_def
  zero_grad_def backward_def optimizer_step_def AverageMeter_init_def reset_def
  Accuracy_reset_def update_def Accuracy_update_def avg_def Accuracy_compute_def updates_def
  Accuracy_updates_def train_world_def train_state_def batch_outputs_def batch_loss_def

text \<open>
  Two batches on the example library: the pass returns loss 1/2 and accuracy 3/4 (the
  first batch is predicted wrongly, the three samples of the second rightly), and after
  the second batch the gradient is that batch's alone and the parameter has been advanced
  twice.
\<close>

theorem train_one_epoch_pass_witness:
  "snd (snd (train_one_epoch (stub [0, 2]) [([0], [0]), ([0, 1, 2], [0, 0, 1])] 0
        (stub_world, Accuracy_reset))) = (1 / 2, 3 / 4)
   \<and> grads (train_world (stub [0, 2]) stub_world [([0], [0]), ([0, 1, 2], [0, 0, 1])] 2) = 1
   \<and> params (train_world (stub [0, 2]) stub_world [([0], [0]), ([0, 1, 2], [0, 0, 1])] 2) = 2"
proof -
  let ?bs = "[([0], [0]), ([0, 1, 2], [0, 0, 1])] :: nat batch list"
  note t = train_one_epoch_pass [of "stub [0, 2]" ?bs 0 stub_world Accuracy_reset]
  have up: "[0..<length ?bs] = [0, 1]"
    by (simp add: upt_rec)
  have w1: "train_world (stub [0, 2]) stub_world ?bs 1
      = \<lparr>params = 1, buffers = (), grads = 1, training = True, opt_state = 1,
         calls = [ModelTrain, MetricReset, Forward, Criterion, ZeroGrad, Backward,
                  OptimizerStep, MeterUpdate, Argmax, MetricUpdate, MetricCompute]\<rparr>"
    by (simp add: run_defs stub_def stub_world_def)
  have r: "snd (snd (train_one_epoch (stub [0, 2]) ?bs 0 (stub_world, Accuracy_reset)))
      = (1 / 2, 3 / 4)"
    using t unfolding up by (simp add: run_defs stub_def stub_world_def)
  have k: "(1::nat) < length ?bs"
    by simp
  from t have "grads (train_world (stub [0, 2]) stub_world ?bs (Suc 1)) =
          accumulate (stub [0, 2]) (cleared (stub [0, 2]))
            (gradient (stub [0, 2]) (params (train_world (stub [0, 2]) stub_world ?bs 1))
               (buffers (train_world (stub [0, 2]) stub_world ?bs 1))
               (fst (?bs ! 1)) (snd (?bs ! 1)))
      \<and> (opt_state (train_world (stub [0, 2]) stub_world ?bs (Suc 1)),
         params (train_world (stub [0, 2]) stub_world ?bs (Suc 1))) =
          step (stub [0, 2]) (opt_state (train_world (stub [0, 2]) stub_world ?bs 1))
            (params (train_world (stub [0, 2]) stub_world ?bs 1))
            (grads (train_world (stub [0, 2]) stub_world ?bs (Suc 1)))"
    using k by blast
  then have "grads (train_world (stub [0, 2]) stub_world ?bs 2) = 1
     \<and> params (train_world (stub [0, 2]) stub_world ?bs 2) = 2"
    unfolding w1 by (simp add: stub_def eval_nat_numeral)
  with r show ?thesis by simp
qed

text \<open>
  The order "propagate gradients, update, then reset the gradients for the next batch"
  is not the order of the code. On one batch, starting with stale gradients 5, the calls
  are in the order below (the reset before the propagation) and the pass ends with the
  gradient 1 of the batch still accumulated, not with cleared gradients.
\<close>

theorem train_one_epoch_reset_order_counterexample:
  "calls (fst (train_one_epoch (stub [0, 2]) [([0], [0])] 0 (stub_world, Accuracy_reset))) =
     [ModelTrain, MetricReset, Forward, Criterion, ZeroGrad, Backward, OptimizerStep,
      MeterUpdate, Argmax, MetricUpdate, MetricCompute, MetricCompute]
   \<and> grads stub_world = 5
   \<and> grads (fst (train_one_epoch (stub [0, 2]) [([0], [0])] 0 (stub_world, Accuracy_reset))) = 1
   \<and> grads (fst (train_one_epoch (stub [0, 2]) [([0], [0])] 0 (stub_world, Accuracy_reset)))
        \<noteq> cleared (stub [0, 2])"
  by (simp add: run_defs stub_def stub_world_def)

lemma val_batches:
  "\<not> training w \<Longrightarrow> foldl (val_batch L) (w, m, a) bs =
     (w\<lparr>calls := calls w @ concat (map (\<lambda>b. val_calls) bs)\<rparr>,
      updates m
        (map (\<lambda>(X, y). (criterion L (forward_eval L (params w) (buffers w) X) y, length X)) bs),
      Accuracy_updates a
        (map (\<lambda>(X, y). (map argmax (forward_eval L (params w) (buffers w) X), y)) bs))"
proof (induction bs arbitrary: w m a)
  case Nil
  show ?case by (simp add: updates_def Accuracy_updates_def)
next
  case (Cons b bs)
  obtain X y where b: "b = (X, y)" by (cases b)
  let ?w = "w\<lparr>calls := calls w @ val_calls\<rparr>"
  have step: "val_batch L (w, m, a) (X, y) =
      (?w, update m (criterion L (forward_eval L (params w) (buffers w) X) y) (length X),
       Accuracy_update a (map argmax (forward_eval L (params w) (buffers w) X)) y)"
    using Cons.prems by (simp add: val_batch_def model_call_def log_def val_calls_def)
  have "\<not> training ?w" using Cons.prems by simp
  from Cons.IH [OF this] show ?case
    unfolding b by (simp add: step updates_def Accuracy_updates_def)
qed

text \<open>A validation pass in closed form: it depends on the parameters and buffers only.\<close>

lemma validate_eq:
  "validate L bs e (w, a) =
     (w\<lparr>training := False,
        calls := calls w @ [ModelEval, MetricReset] @ concat (map (\<lambda>b. val_calls) bs)
                   @ [MetricCompute]\<rparr>,
      Accuracy_updates Accuracy_reset
        (map (\<lambda>(X, y). (map argmax (forward_eval L (params w) (buffers w) X), y)) bs),
      avg (updates reset
        (map (\<lambda>(X, y). (criterion L (forward_eval L (params w) (buffers w) X) y, length X)) bs)),
      Accuracy_compute (Accuracy_updates Accuracy_reset
        (map (\<lambda>(X, y). (map argmax (forward_eval L (params w) (buffers w) X), y)) bs)))"
proof -
  let ?w = "log MetricReset (model_eval w)"
  have "\<not> training ?w" by (simp add: model_eval_def)
  from val_batches [OF this, of L AverageMeter_init Accuracy_reset bs] show ?thesis
    by (simp add: validate_def model_eval_def log_def AverageMeter_init_def)
qed

text \<open>
  C7. A validation pass leaves the parameters (and the buffers, the accumulated gradients
  and the optimizer state) as they were: its library calls are the mode switch, the metric
  reset and, per batch, the forward pass, the loss, the loss meter, the arg-max and the
  metric update, so no gradient is propagated and no update step is made. Running the
  same stream a second time on the resulting model returns the same
  (average loss, average accuracy).
\<close>

theorem validate_read_only:
  "params (fst (validate L bs e (w, a))) = params w
   \<and> buffers (fst (validate L bs e (w, a))) = buffers w
   \<and> grads (fst (validate L bs e (w, a))) = grads w
   \<and> opt_state (fst (validate L bs e (w, a))) = opt_state w
   \<and> calls (fst (validate L bs e (w, a))) =
       calls w @ [ModelEval, MetricReset]
         @ concat (map (\<lambda>b. [Forward, Criterion, MeterUpdate, Argmax, MetricUpdate]) bs)
         @ [MetricCompute]
   \<and> snd (snd (validate L bs e'
         (fst (validate L bs e (w, a)), fst (snd (validate L bs e (w, a))))))
       = snd (snd (validate L bs e (w, a)))"
  by (simp add: validate_eq val_calls_def)

section \<open>Properties of the training driver\<close>

lemma epoch_body_eq:
  fixes L fmt trl vll n e d
  defines "tr \<equiv> epoch_train L trl e d"
  defines "vr \<equiv> epoch_val L trl vll e d"
  shows "epoch_body L fmt trl vll n e d =
    ([AddScalar ''Loss/Train'' (fst (snd (snd tr))) e,
      AddScalar ''Accuracy/Train'' (snd (snd (snd tr))) e,
      AddScalar ''Loss/Validation'' (fst (snd (snd vr))) e,
      AddScalar ''Accuracy/Validation'' (snd (snd (snd vr))) e,
      Print (epoch_line fmt e n (fst (snd (snd tr))) (snd (snd (snd tr)))
               (fst (snd (snd vr))) (snd (snd (snd vr))))]
     @ (if snd (snd (snd vr)) > best_val_acc d
        then [Save (params (fst vr), buffers (fst vr)) ''best_model.pth'',
              Print (best_line fmt e (snd (snd (snd vr))))]
        else []),
     d\<lparr>env := fst vr, train_accuracy := fst (snd tr), val_accuracy := fst (snd vr),
       best_val_acc := (if snd (snd (snd vr)) > best_val_acc d then snd (snd (snd vr))
                        else best_val_acc d)\<rparr>)"
  unfolding tr_def vr_def epoch_val_def epoch_train_def
  by (simp add: epoch_body_def split_def Let_def)

lemma epoch_body_checkpoint:
  "val_acc_of (fst (epoch_body L fmt trl vll n e d)) = snd (snd (snd (epoch_val L trl vll e d)))"
  "wrote_checkpoint (fst (epoch_body L fmt trl vll n e d))
     \<longleftrightarrow> snd (snd (snd (epoch_val L trl vll e d))) > best_val_acc d"
  "best_val_acc (snd (epoch_body L fmt trl vll n e d))
     = max (best_val_acc d) (snd (snd (snd (epoch_val L trl vll e d))))"
  by (simp_all add: epoch_body_eq wrote_checkpoint_def)

lemma training_loop_snoc:
  "training_loop L fmt trl vll n (es @ [e]) d0 =
     (fst (training_loop L fmt trl vll n es d0)
        @ [fst (epoch_body L fmt trl vll n e (snd (training_loop L fmt trl vll n es d0)))],
      snd (epoch_body L fmt trl vll n e (snd (training_loop L fmt trl vll n es d0))))"
  by (simp add: training_loop_def split_def Let_def)

lemma training_loop_Nil: "training_loop L fmt trl vll n [] d0 = ([], d0)"
  by (simp add: training_loop_def)

lemma training_loop_length:
  "length (fst (training_loop L fmt trl vll n [0..<k] d0)) = k"
  by (induction k) (simp_all add: training_loop_snoc training_loop_Nil)

lemma all_set_take:
  "i \<le> length xs \<Longrightarrow> (\<forall>u\<in>set (take i xs). P u) \<longleftrightarrow> (\<forall>j<i. P (xs ! j))"
  by (simp add: all_set_conv_all_nth)

lemma training_loop_nth:
  "i < k \<Longrightarrow> fst (training_loop L fmt trl vll n [0..<k] d0) ! i =
     fst (epoch_body L fmt trl vll n i (driver_after L fmt trl vll n i d0))"
proof (induction k)
  case 0
  then show ?case by simp
next
  case (Suc k)
  show ?case
  proof (cases "i = k")
    case True
    then show ?thesis
      by (simp add: training_loop_snoc nth_append training_loop_length driver_after_def)
  next
    case False
    with Suc.prems have "i < k" by simp
    with Suc.IH show ?thesis
      by (simp add: training_loop_snoc nth_append training_loop_length)
  qed
qed

lemma training_loop_take:
  "k \<le> m \<Longrightarrow> take k (fst (training_loop L fmt trl vll n [0..<m] d0))
     = fst (training_loop L fmt trl vll n [0..<k] d0)"
  by (rule nth_equalityI) (simp_all add: training_loop_length training_loop_nth)

lemma driver_after_best:
  "best_val_acc (driver_after L fmt trl vll n k d0) =
     foldl max (best_val_acc d0) (map val_acc_of (fst (training_loop L fmt trl vll n [0..<k] d0)))"
proof (induction k)
  case 0
  show ?case by (simp add: driver_after_def training_loop_def)
next
  case (Suc k)
  have "driver_after L fmt trl vll n (Suc k) d0 =
      snd (epoch_body L fmt trl vll n k (driver_after L fmt trl vll n k d0))"
    by (simp add: driver_after_def training_loop_snoc)
  then show ?case
    using Suc.IH by (simp add: training_loop_snoc epoch_body_checkpoint driver_after_def)
qed

lemma gt_foldl_max:
  "(v::real) > foldl max b vs \<longleftrightarrow> v > b \<and> (\<forall>u\<in>set vs. u < v)"
  by (induction vs arbitrary: b) auto

lemma foldl_max_zeros: "foldl max (0::real) (replicate n 0) = 0"
  by (induction n) simp_all

lemma run_checkpoint:
  assumes "i < n"
  shows "wrote_checkpoint (fst (run L fmt trl vll n (initial w ta va)) ! i) \<longleftrightarrow>
     map val_acc_of (fst (run L fmt trl vll n (initial w ta va))) ! i
       > running_best (take i (map val_acc_of (fst (run L fmt trl vll n (initial w ta va)))))"
proof -
  let ?d0 = "initial w ta va"
  have "take i (map val_acc_of (fst (run L fmt trl vll n ?d0)))
      = map val_acc_of (fst (training_loop L fmt trl vll n [0..<i] ?d0))"
    using assms by (simp add: run_def take_map training_loop_take)
  then have "running_best (take i (map val_acc_of (fst (run L fmt trl vll n ?d0))))
      = best_val_acc (driver_after L fmt trl vll n i ?d0)"
    by (simp add: running_best_def driver_after_best initial_def)
  then show ?thesis
    using assms by (simp add: run_def training_loop_nth epoch_body_checkpoint training_loop_length)
qed

lemma run_best:
  "best_val_acc (snd (run L fmt trl vll n (initial w ta va))) =
     running_best (map val_acc_of (fst (run L fmt trl vll n (initial w ta va))))"
  using driver_after_best [of L fmt trl vll n n "initial w ta va"]
  by (simp add: run_def driver_after_def running_best_def initial_def)

text \<open>
  C1 (amended). The training driver writes the best checkpoint at an epoch if and only if
  the validation accuracy of that epoch is strictly greater than the initial best 0.0 and
  than the validation accuracy of every earlier epoch (strict \<open>>\<close>: a tie with the current
  best writes nothing). For the validation accuracies 0.1, 0.05, 0.3, 0.2 the checkpoint is
  written exactly at epochs 0 and 2 and the final \<open>best_val_acc\<close> is 0.3.
\<close>

theorem best_checkpoint_strict_improvement:
  "(\<forall>i<n. wrote_checkpoint (fst (run L fmt trl vll n (initial w ta va)) ! i) \<longleftrightarrow>
           0 < val_acc_of (fst (run L fmt trl vll n (initial w ta va)) ! i)
           \<and> (\<forall>j<i. val_acc_of (fst (run L fmt trl vll n (initial w ta va)) ! j)
                     < val_acc_of (fst (run L fmt trl vll n (initial w ta va)) ! i)))
   \<and> (map val_acc_of (fst (run L fmt trl vll n (initial w ta va))) = [0.1, 0.05, 0.3, 0.2] \<longrightarrow>
          map wrote_checkpoint (fst (run L fmt trl vll n (initial w ta va)))
            = [True, False, True, False]
          \<and> best_val_acc (snd (run L fmt trl vll n (initial w ta va))) = 0.3)"
proof -
  let ?evs = "fst (run L fmt trl vll n (initial w ta va))"
  have len: "length ?evs = n"
    by (simp add: run_def training_loop_length)
  have a: "wrote_checkpoint (?evs ! i) \<longleftrightarrow>
           0 < val_acc_of (?evs ! i) \<and> (\<forall>j<i. val_acc_of (?evs ! j) < val_acc_of (?evs ! i))"
    if i: "i < n" for i
  proof -
    have "i \<le> length (map val_acc_of ?evs)"
      using i len by simp
    from all_set_take [OF this] show ?thesis
      unfolding run_checkpoint [OF i] running_best_def gt_foldl_max using i len by simp
  qed
  have b: "map wrote_checkpoint ?evs = [True, False, True, False]
          \<and> best_val_acc (snd (run L fmt trl vll n (initial w ta va))) = 0.3"
    if t: "map val_acc_of ?evs = [0.1, 0.05, 0.3, 0.2]"
  proof -
    have "length (map val_acc_of ?evs) = 4"
      unfolding t by simp
    with len have n: "n = 4"
      by simp
    have w: "wrote_checkpoint (?evs ! i) \<longleftrightarrow>
        [0.1, 0.05, 0.3, 0.2] ! i > running_best (take i [0.1, 0.05, 0.3, 0.2])" if "i < 4" for i
      using run_checkpoint [of i n L fmt trl vll w ta va] that n
      unfolding t by simp
    have "map wrote_checkpoint ?evs = map (\<lambda>i. wrote_checkpoint (?evs ! i)) [0..<4]"
      using len n by (intro nth_equalityI) simp_all
    also have "\<dots> = [True, False, True, False]"
      using w [of 0] w [of 1] w [of 2] w [of 3]
      by (simp add: upt_rec running_best_def eval_nat_numeral)
    finally show ?thesis
      by (simp add: run_best t running_best_def)
  qed
  show ?thesis
    using a b by blast
qed



text \<open>
  Evaluation of runs on the example library, whose validation accuracy after \<open>p\<close>
  optimizer steps is \<open>thr ! p / 20\<close>.
\<close>

lemmas stub_run_defs = run_def training_loop_def upt_rec epoch_body_def validate_eq run_defs
  stub_def stub_train_def stub_val_def stub_world_def initial_def

lemma stub_run_trace:
  "map val_acc_of (fst (run (stub [0, 2, 1, 6, 4]) (\<lambda>r. ''x'') stub_train stub_val 4
      (initial stub_world Accuracy_reset Accuracy_reset))) = [0.1, 0.05, 0.3, 0.2]"
  by (simp add: stub_run_defs)

text \<open>A run of four epochs with the validation accuracies 0.1, 0.05, 0.3, 0.2.\<close>

theorem best_checkpoint_strict_improvement_witness:
  "map val_acc_of (fst (run (stub [0, 2, 1, 6, 4]) (\<lambda>r. ''x'') stub_train stub_val 4
      (initial stub_world Accuracy_reset Accuracy_reset))) = [0.1, 0.05, 0.3, 0.2]
   \<and> map wrote_checkpoint (fst (run (stub [0, 2, 1, 6, 4]) (\<lambda>r. ''x'') stub_train stub_val 4
      (initial stub_world Accuracy_reset Accuracy_reset))) = [True, False, True, False]
   \<and> best_val_acc (snd (run (stub [0, 2, 1, 6, 4]) (\<lambda>r. ''x'') stub_train stub_val 4
      (initial stub_world Accuracy_reset Accuracy_reset))) = 0.3"
  using best_checkpoint_strict_improvement [of 4 "stub [0, 2, 1, 6, 4]" "\<lambda>r. ''x''" stub_train
      stub_val stub_world Accuracy_reset Accuracy_reset] stub_run_trace
  by blast

text \<open>
  A run of one epoch whose validation accuracy is 0. No epoch precedes epoch 0, so its
  accuracy exceeds that of every earlier epoch; the checkpoint is not written, because
  0 is not greater than the initial \<open>best_val_acc = 0.0\<close>.
\<close>

theorem first_epoch_zero_accuracy_counterexample:
  "map val_acc_of (fst (run (stub [0, 0]) (\<lambda>r. ''x'') stub_train stub_val 1
      (initial stub_world Accuracy_reset Accuracy_reset))) = [0]
   \<and> map wrote_checkpoint (fst (run (stub [0, 0]) (\<lambda>r. ''x'') stub_train stub_val 1
      (initial stub_world Accuracy_reset Accuracy_reset))) = [False]"
  by (simp add: stub_run_defs wrote_checkpoint_def)

text \<open>
  C9. \<open>best_val_acc\<close> is 0.0 before the first epoch, so an epoch writes the checkpoint only
  if its validation accuracy is strictly greater than 0; in a run whose validation
  accuracy is 0 in every epoch, no checkpoint is ever written and \<open>best_val_acc\<close> is still
  0.0 at the end.
\<close>

theorem no_checkpoint_without_positive_accuracy:
  "best_val_acc (initial w ta va) = 0
   \<and> (\<forall>i<n. wrote_checkpoint (fst (run L fmt trl vll n (initial w ta va)) ! i)
          \<longrightarrow> 0 < val_acc_of (fst (run L fmt trl vll n (initial w ta va)) ! i))
   \<and> ((\<forall>i<n. val_acc_of (fst (run L fmt trl vll n (initial w ta va)) ! i) = 0) \<longrightarrow>
        (\<forall>i<n. \<not> wrote_checkpoint (fst (run L fmt trl vll n (initial w ta va)) ! i))
        \<and> \<not> list_ex is_Save (concat (fst (run L fmt trl vll n (initial w ta va))))
        \<and> best_val_acc (snd (run L fmt trl vll n (initial w ta va))) = 0)"
proof -
  let ?evs = "fst (run L fmt trl vll n (initial w ta va))"
  have len: "length ?evs = n"
    by (simp add: run_def training_loop_length)
  have pos: "0 < val_acc_of (?evs ! i)" if i: "i < n" and wr: "wrote_checkpoint (?evs ! i)" for i
  proof -
    from wr have "map val_acc_of ?evs ! i > running_best (take i (map val_acc_of ?evs))"
      using run_checkpoint [of i n L fmt trl vll w ta va] i by simp
    then show ?thesis
      using i len by (simp add: running_best_def gt_foldl_max)
  qed
  have zero: "(\<forall>i<n. \<not> wrote_checkpoint (?evs ! i))
        \<and> \<not> list_ex is_Save (concat ?evs)
        \<and> best_val_acc (snd (run L fmt trl vll n (initial w ta va))) = 0"
    if z: "\<forall>i<n. val_acc_of (?evs ! i) = 0"
  proof -
    have no: "\<not> wrote_checkpoint (?evs ! i)" if "i < n" for i
      using pos [OF that] z that by auto
    then have "\<forall>ev\<in>set ?evs. \<not> list_ex is_Save ev"
      using len by (auto simp: in_set_conv_nth wrote_checkpoint_def)
    then have c: "\<not> list_ex is_Save (concat ?evs)"
      by (auto simp: list_ex_iff)
    have "map val_acc_of ?evs = replicate n 0"
      using z len by (intro nth_equalityI) simp_all
    then have "running_best (map val_acc_of ?evs) = 0"
      by (simp add: running_best_def foldl_max_zeros)
    with no c show ?thesis
      by (simp add: run_best)
  qed
  show ?thesis
    using pos zero by (simp add: initial_def)
qed

text \<open>A run of two epochs in which every prediction is wrong.\<close>

theorem no_checkpoint_without_positive_accuracy_witness:
  "map val_acc_of (fst (run (stub [0, 0, 0]) (\<lambda>r. ''x'') stub_train stub_val 2
      (initial stub_world Accuracy_reset Accuracy_reset))) = [0, 0]
   \<and> \<not> list_ex is_Save (concat (fst (run (stub [0, 0, 0]) (\<lambda>r. ''x'') stub_train stub_val 2
      (initial stub_world Accuracy_reset Accuracy_reset))))
   \<and> best_val_acc (snd (run (stub [0, 0, 0]) (\<lambda>r. ''x'') stub_train stub_val 2
      (initial stub_world Accuracy_reset Accuracy_reset))) = 0"
proof -
  let ?evs = "fst (run (stub [0, 0, 0]) (\<lambda>r. ''x'') stub_train stub_val 2
      (initial stub_world Accuracy_reset Accuracy_reset))"
  have t: "map val_acc_of ?evs = [0, 0]"
    by (simp add: stub_run_defs)
  have "val_acc_of (?evs ! i) = 0" if "i < 2" for i
  proof -
    have "length ?evs = 2" using arg_cong [OF t, of length] by simp
    then have "val_acc_of (?evs ! i) = map val_acc_of ?evs ! i" using that by simp
    also have "\<dots> = 0" unfolding t using that by (cases i) simp_all
    finally show ?thesis .
  qed
  then have "\<forall>i<2. val_acc_of (?evs ! i) = 0" by blast
  with no_checkpoint_without_positive_accuracy [of stub_world Accuracy_reset Accuracy_reset 2
      "stub [0, 0, 0]" "\<lambda>r. ''x''" stub_train stub_val] t
  show ?thesis by blast
qed

lemma train_one_epoch_calls:
  "calls (fst (train_one_epoch L bs epoch (w, a))) =
     calls w @ [ModelTrain, MetricReset] @ concat (map (\<lambda>b. batch_calls) bs) @ [MetricCompute]"
proof -
  obtain wf mf af where f: "train_state L w bs (length bs) = (wf, mf, af)"
    by (cases "train_state L w bs (length bs)")
  have "calls wf = calls w @ [ModelTrain, MetricReset] @ concat (replicate (length bs) batch_calls)"
    using train_state_inv [of "length bs" bs L w] by (simp add: f)
  then show ?thesis
    by (simp add: train_one_epoch_def train_state_all f map_replicate_const)
qed

lemma filter_concat_const:
  "filter P cs = [] \<Longrightarrow> filter P (concat (map (\<lambda>b. cs) bs)) = []"
  by (induction bs) simp_all

lemma train_one_epoch_mode_calls:
  "filter is_mode_call (calls (fst (train_one_epoch L bs epoch (w, a)))) =
     filter is_mode_call (calls w) @ [ModelTrain]"
  by (simp add: train_one_epoch_calls filter_concat_const batch_calls_def)

lemma validate_mode_calls:
  "filter is_mode_call (calls (fst (validate L bs epoch (w, a)))) =
     filter is_mode_call (calls w) @ [ModelEval]"
  by (simp add: validate_eq filter_concat_const val_calls_def)

lemma epoch_body_env:
  "env (snd (epoch_body L fmt trl vll n e d)) = fst (epoch_val L trl vll e d)"
  by (simp add: epoch_body_eq)

lemma epoch_body_mode_calls:
  "filter is_mode_call (calls (env (snd (epoch_body L fmt trl vll n e d)))) =
     filter is_mode_call (calls (env d)) @ [ModelTrain, ModelEval]"
  by (simp add: epoch_body_env epoch_val_def epoch_train_def validate_mode_calls
      train_one_epoch_mode_calls prod.collapse [symmetric] del: prod.collapse)

lemma driver_after_Suc:
  "driver_after L fmt trl vll n (Suc k) d0 =
     snd (epoch_body L fmt trl vll n k (driver_after L fmt trl vll n k d0))"
  by (simp add: driver_after_def training_loop_snoc)

lemma driver_after_mode_calls:
  "filter is_mode_call (calls (env (driver_after L fmt trl vll n k d0))) =
     filter is_mode_call (calls (env d0)) @ concat (replicate k [ModelTrain, ModelEval])"
proof (induction k)
  case 0
  show ?case by (simp add: driver_after_def training_loop_Nil)
next
  case (Suc k)
  have "concat (replicate k [ModelTrain, ModelEval]) @ [ModelTrain, ModelEval]
      = concat (replicate (Suc k) [ModelTrain, ModelEval])"
    by (induction k) simp_all
  with Suc.IH show ?case
    unfolding driver_after_Suc epoch_body_mode_calls by (simp del: replicate_Suc)
qed

lemma console_epoch:
  "length (filter is_epoch_line (console (fst (epoch_body L fmt trl vll n e d)))) = 1"
  by (simp add: epoch_body_eq is_epoch_line_def epoch_line_def best_line_def)

text \<open>
  C8. For every number of epochs \<open>n\<close> the loop makes exactly \<open>n\<close> iterations, whatever the
  metrics are. Iteration \<open>i\<close> runs one training pass and then one validation pass from the
  state the previous iterations left (the mode switches of the whole run are
  \<open>train, eval\<close> repeated \<open>n\<close> times), sends the four scalars train loss, train accuracy,
  validation loss and validation accuracy to the log writer, and prints one console line
  \<open>Epoch [i+1/n], Train Loss: ..., Train Accuracy: ..., Val Loss: ..., Val Accuracy: ...\<close>;
  the only other events of an epoch are the checkpoint and its own console line, which is
  of another form. The script is this loop from \<open>best_val_acc = 0.0\<close>, followed by the
  closing of the log writer.
\<close>

theorem training_loop_epochs:
  "length (fst (run L fmt trl vll n d0)) = n
   \<and> (\<forall>i<n.
        (case epoch_metrics L trl vll i (driver_after L fmt trl vll n i d0) of
           (train_loss, train_acc, val_loss, val_acc) \<Rightarrow>
             fst (run L fmt trl vll n d0) ! i =
               [AddScalar ''Loss/Train'' train_loss i,
                AddScalar ''Accuracy/Train'' train_acc i,
                AddScalar ''Loss/Validation'' val_loss i,
                AddScalar ''Accuracy/Validation'' val_acc i,
                Print (epoch_line fmt i n train_loss train_acc val_loss val_acc)]
               @ (if val_acc > best_val_acc (driver_after L fmt trl vll n i d0)
                  then [Save (params (env (driver_after L fmt trl vll n (Suc i) d0)),
                              buffers (env (driver_after L fmt trl vll n (Suc i) d0)))
                          ''best_model.pth'',
                        Print (best_line fmt i val_acc)]
                  else []))
      \<and> length (filter is_epoch_line (console (fst (run L fmt trl vll n d0) ! i))) = 1
      \<and> env (driver_after L fmt trl vll n (Suc i) d0)
          = fst (epoch_val L trl vll i (driver_after L fmt trl vll n i d0)))
   \<and> snd (run L fmt trl vll n d0) = driver_after L fmt trl vll n n d0
   \<and> filter is_mode_call (calls (env (snd (run L fmt trl vll n d0)))) =
       filter is_mode_call (calls (env d0)) @ concat (replicate n [ModelTrain, ModelEval])
   \<and> epoch_line fmt epoch n x1 x2 x3 x4 =
       ''Epoch ['' @ str_nat (epoch + 1) @ ''/'' @ str_nat n @ ''], Train Loss: '' @ fmt x1
         @ '', Train Accuracy: '' @ fmt x2 @ '', Val Loss: '' @ fmt x3
         @ '', Val Accuracy: '' @ fmt x4
   \<and> training_script L fmt trl vll n w ta va =
       (concat (fst (run L fmt trl vll n (initial w ta va))) @ [WriterClose],
        snd (run L fmt trl vll n (initial w ta va)))"
proof -
  have g: "training_script L fmt trl vll n w ta va =
       (concat (fst (run L fmt trl vll n (initial w ta va))) @ [WriterClose],
        snd (run L fmt trl vll n (initial w ta va)))"
    by (simp add: training_script_def split_def Let_def)
  have a: "length (fst (run L fmt trl vll n d0)) = n"
    by (simp add: run_def training_loop_length)
  have b: "snd (run L fmt trl vll n d0) = driver_after L fmt trl vll n n d0"
    by (simp add: run_def driver_after_def)
  have c: "filter is_mode_call (calls (env (snd (run L fmt trl vll n d0)))) =
       filter is_mode_call (calls (env d0)) @ concat (replicate n [ModelTrain, ModelEval])"
    unfolding b by (rule driver_after_mode_calls)
  have d: "epoch_line fmt epoch n x1 x2 x3 x4 =
       ''Epoch ['' @ str_nat (epoch + 1) @ ''/'' @ str_nat n @ ''], Train Loss: '' @ fmt x1
         @ '', Train Accuracy: '' @ fmt x2 @ '', Val Loss: '' @ fmt x3
         @ '', Val Accuracy: '' @ fmt x4"
    by (simp add: epoch_line_def)
  have e: "fst (run L fmt trl vll n d0) ! i =
      fst (epoch_body L fmt trl vll n i (driver_after L fmt trl vll n i d0))" if "i < n" for i
    using that by (simp add: run_def training_loop_nth)
  have f: "(case epoch_metrics L trl vll i (driver_after L fmt trl vll n i d0) of
           (train_loss, train_acc, val_loss, val_acc) \<Rightarrow>
             fst (run L fmt trl vll n d0) ! i =
               [AddScalar ''Loss/Train'' train_loss i,
                AddScalar ''Accuracy/Train'' train_acc i,
                AddScalar ''Loss/Validation'' val_loss i,
                AddScalar ''Accuracy/Validation'' val_acc i,
                Print (epoch_line fmt i n train_loss train_acc val_loss val_acc)]
               @ (if val_acc > best_val_acc (driver_after L fmt trl vll n i d0)
                  then [Save (params (env (driver_after L fmt trl vll n (Suc i) d0)),
                              buffers (env (driver_after L fmt trl vll n (Suc i) d0)))
                          ''best_model.pth'',
                        Print (best_line fmt i val_acc)]
                  else []))
      \<and> length (filter is_epoch_line (console (fst (run L fmt trl vll n d0) ! i))) = 1
      \<and> env (driver_after L fmt trl vll n (Suc i) d0)
          = fst (epoch_val L trl vll i (driver_after L fmt trl vll n i d0))" if i: "i < n" for i
    unfolding e [OF i]
    by (simp add: console_epoch driver_after_Suc epoch_body_env epoch_metrics_def split_def Let_def)
       (simp add: epoch_body_eq)
  show ?thesis
    using a f b c d g by blast
qed

text \<open>Decimal numerals, and a run of two epochs on the example library.\<close>

lemma str_nat_examples: "str_nat 1 = ''1''" "str_nat 2 = ''2''" "str_nat 20 = ''20''" "str_nat 137 = ''137''"
  by (simp_all add: str_nat.simps)

theorem training_loop_epochs_witness:
  "length (fst (run (stub [0, 2, 1]) (\<lambda>r. ''x'') stub_train stub_val 2
      (initial stub_world Accuracy_reset Accuracy_reset))) = 2
   \<and> filter is_mode_call (calls (env (snd (run (stub [0, 2, 1]) (\<lambda>r. ''x'') stub_train stub_val 2
      (initial stub_world Accuracy_reset Accuracy_reset)))))
       = [ModelTrain, ModelEval, ModelTrain, ModelEval]
   \<and> length (filter is_epoch_line (console (fst (run (stub [0, 2, 1]) (\<lambda>r. ''x'') stub_train
      stub_val 2 (initial stub_world Accuracy_reset Accuracy_reset)) ! 1))) = 1
   \<and> console (fst (run (stub [0, 2, 1]) (\<lambda>r. ''x'') stub_train
      stub_val 2 (initial stub_world Accuracy_reset Accuracy_reset)) ! 1)
       = [''Epoch [2/2], Train Loss: x, Train Accuracy: x, Val Loss: x, Val Accuracy: x'']"
proof -
  let ?d0 = "initial stub_world Accuracy_reset Accuracy_reset"
  let ?run = "run (stub [0, 2, 1]) (\<lambda>r. ''x'') stub_train stub_val 2 ?d0"
  note t = training_loop_epochs [of "stub [0, 2, 1]" "\<lambda>r. ''x''" stub_train stub_val 2 ?d0]
  have k: "(1::nat) < 2" by simp
  have a: "length (fst ?run) = 2"
    using t by blast
  have c: "filter is_mode_call (calls (env (snd ?run))) = [ModelTrain, ModelEval, ModelTrain, ModelEval]"
  proof -
    from t have "filter is_mode_call (calls (env (snd ?run))) =
       filter is_mode_call (calls (env ?d0)) @ concat (replicate 2 [ModelTrain, ModelEval])"
      by blast
    then show ?thesis
      by (simp add: initial_def stub_world_def eval_nat_numeral)
  qed
  have f: "length (filter is_epoch_line (console (fst ?run ! 1))) = 1"
    using t k by blast
  have g: "console (fst ?run ! 1)
       = [''Epoch [2/2], Train Loss: x, Train Accuracy: x, Val Loss: x, Val Accuracy: x'']"
    by (simp add: stub_run_defs epoch_line_def str_nat.simps)
  from a c f g show ?thesis by blast
qed

section \<open>Properties of the residual network\<close>

lemma make_layer_unfold:
  "make_layer ic oc blocks s =
     (oc * expansion,
      BasicBlock_init ic oc s
        (if s \<noteq> 1 \<or> ic \<noteq> oc * expansion
         then Some [Conv2d ic (oc * expansion) 1 s 0, BatchNorm2d (oc * expansion)] else None)
      # replicate (blocks - 1) (BasicBlock_init (oc * expansion) oc 1 None))"
  by (simp add: make_layer_def Let_def map_replicate_const)

text \<open>
  The first block of a stage: the main path and the shortcut arrive at the same shape,
  unless batch normalization, in training mode, is given a single value per channel.
\<close>

lemma block_shape:
  assumes "0 < s" "0 < h" "0 < w"
    and "\<not> (is_training \<and> n * ((h - 1) div s + 1) * ((w - 1) div s + 1) = 1)"
  shows "BasicBlock_forward_shape is_training
     (BasicBlock_init ic oc s
        (if s \<noteq> 1 \<or> ic \<noteq> oc * expansion
         then Some [Conv2d ic (oc * expansion) 1 s 0, BatchNorm2d (oc * expansion)] else None))
     [n, ic, h, w] = Some [n, oc, (h - 1) div s + 1, (w - 1) div s + 1]"
  using assms
  by (auto simp: BasicBlock_forward_shape_def BasicBlock_init_def expansion_def iadd_shape_def)

text \<open>
  C4. For every input \<open>x\<close> the forward pass of a residual block is
  \<open>relu (bn2 (conv2 (relu (bn1 (conv1 x)))) + identity)\<close>, where \<open>identity\<close> is
  \<open>downsample x\<close> when a downsample transform is configured and \<open>x\<close> otherwise. The first
  block of a stage has no downsample transform exactly when the stride is 1 and the
  input channels equal the output channels; every block of a stage built with stride 1
  and equal channels has none, its output shape is its input shape (for an input that
  batch normalization accepts: not a single value per channel in training mode), and its
  output is \<open>relu (F x + x)\<close> for its internal transform \<open>F\<close>.
\<close>

theorem BasicBlock_forward_residual:
  "BasicBlock_forward b x =
      BasicBlock_fn.relu b
        (iadd (BasicBlock_fn.bn2 b (BasicBlock_fn.conv2 b
                 (BasicBlock_fn.relu b (BasicBlock_fn.bn1 b (BasicBlock_fn.conv1 b x)))))
              (case BasicBlock_fn.downsample b of None \<Rightarrow> x | Some d \<Rightarrow> d x))
   \<and> (BasicBlock_fn.downsample b = None \<longrightarrow>
        BasicBlock_forward b x = BasicBlock_fn.relu b (iadd (residual b x) x))
   \<and> (BasicBlock.downsample (hd (snd (make_layer ic oc blocks s))) = None
        \<longleftrightarrow> s = 1 \<and> ic = oc)
   \<and> (\<forall>blk\<in>set (snd (make_layer c c blocks 1)).
        BasicBlock.downsample blk = None
        \<and> (0 < h \<and> 0 < w \<and> \<not> (is_training \<and> n * h * w = 1) \<longrightarrow>
             BasicBlock_forward_shape is_training blk [n, c, h, w] = Some [n, c, h, w]))
   \<and> (0 < h \<and> 0 < w \<and> \<not> (is_training \<and> n * h * w = 1) \<longrightarrow>
        BasicBlock_forward_shape is_training (BasicBlock_init c c 1 None) [n, c, h, w]
          = Some [n, c, h, w])"
proof -
  have v: "BasicBlock_forward b x =
      BasicBlock_fn.relu b
        (iadd (BasicBlock_fn.bn2 b (BasicBlock_fn.conv2 b
                 (BasicBlock_fn.relu b (BasicBlock_fn.bn1 b (BasicBlock_fn.conv1 b x)))))
              (case BasicBlock_fn.downsample b of None \<Rightarrow> x | Some d \<Rightarrow> d x))"
    by (simp add: BasicBlock_forward_def)
  have sh: "BasicBlock_forward_shape is_training (BasicBlock_init c c 1 None) [n, c, h, w]
      = Some [n, c, h, w]"
    if "0 < h" "0 < w" "\<not> (is_training \<and> n * h * w = 1)"
    using block_shape [of 1 h w is_training n c c] that by (simp add: expansion_def)
  have blks: "blk = BasicBlock_init c c 1 None"
    if "blk \<in> set (snd (make_layer c c blocks 1))" for blk
    using that by (auto simp: make_layer_unfold expansion_def)
  have d: "BasicBlock.downsample (BasicBlock_init c c 1 None) = None"
    by (simp add: BasicBlock_init_def)
  have hdd: "BasicBlock.downsample (hd (snd (make_layer ic oc blocks s))) = None
        \<longleftrightarrow> s = 1 \<and> ic = oc"
    by (simp add: make_layer_unfold expansion_def BasicBlock_init_def)
  show ?thesis
    using v sh blks d hdd by (auto simp: residual_def)
qed

text \<open>
  A block on the values 1 and -4 (the shortcut adds them back, the activation cuts the
  negative sum), and the first block of the first stage of the network on a batch of 8
  in training mode.
\<close>

theorem BasicBlock_forward_residual_witness:
  "BasicBlock_forward stub_block [1, - 4] = [2, 0]
   \<and> BasicBlock_forward_shape True (hd (snd (make_layer 64 64 2 1))) [8, 64, 56, 56]
       = Some [8, 64, 56, 56]
   \<and> BasicBlock.downsample (hd (snd (make_layer 64 64 2 1))) = None"
proof -
  note t = BasicBlock_forward_residual [of stub_block "[1, - 4]" 64 64 2 1 64 56 56 True 8]
  have "BasicBlock_fn.downsample stub_block = None"
    by (simp add: stub_block_def)
  with t have "BasicBlock_forward stub_block [1, - 4]
      = BasicBlock_fn.relu stub_block (iadd (residual stub_block [1, - 4]) [1, - 4])"
    by blast
  then have a: "BasicBlock_forward stub_block [1, - 4] = [2, 0]"
    by (simp add: stub_block_def residual_def iadd_def torch_relu_def)
  have m: "hd (snd (make_layer 64 64 2 1)) \<in> set (snd (make_layer 64 64 2 1))"
    by (simp add: make_layer_unfold)
  have g: "(0::nat) < 56 \<and> (0::nat) < 56 \<and> \<not> (True \<and> (8::nat) * 56 * 56 = 1)"
    by simp
  from t m have "BasicBlock.downsample (hd (snd (make_layer 64 64 2 1))) = None
     \<and> ((0::nat) < 56 \<and> (0::nat) < 56 \<and> \<not> (True \<and> (8::nat) * 56 * 56 = 1) \<longrightarrow>
          BasicBlock_forward_shape True (hd (snd (make_layer 64 64 2 1))) [8, 64, 56, 56]
            = Some [8, 64, 56, 56])"
    by blast
  with a g show ?thesis by blast
qed

text \<open>The downsample transform: a 1x1 convolution of the stride, then normalization.\<close>

lemma Sequential_downsample_shape:
  assumes "0 < s" "0 < h" "0 < w"
    and "\<not> (is_training \<and> n * ((h - 1) div s + 1) * ((w - 1) div s + 1) = 1)"
  shows "Sequential_shape is_training [Conv2d ic oc 1 s 0, BatchNorm2d oc] [n, ic, h, w]
     = Some [n, oc, (h - 1) div s + 1, (w - 1) div s + 1]"
  using assms by auto

lemma ResNet_init_layers:
  assumes "ResNet_init layers nc = Some net"
  shows "ResNet.layer1 net = snd (make_layer 64 64 (layers ! 0) 1)"
    and "ResNet.layer2 net = snd (make_layer 64 128 (layers ! 1) 2)"
    and "ResNet.layer3 net = snd (make_layer 128 256 (layers ! 2) 2)"
    and "ResNet.layer4 net = snd (make_layer 256 512 (layers ! 3) 2)"
  using assms
  by (auto simp: ResNet_init_def make_layer_unfold expansion_def split: if_splits)

text \<open>
  C5 (amended). For every stage with a count of at least 1 the assembler emits that many
  blocks. The first block has the stride of the stage (1 for the first stage, 2 for the
  others) and is given a downsample transform exactly when that stride is not 1 or the
  running input-channel tracker differs from the width of the stage; the transform is a
  1x1 convolution of that stride followed by normalization, and it produces the shape that
  the main path of the first block produces (for an input whose result batch
  normalization accepts: not a single value per channel in training mode). Every later
  block of the stage has stride 1, the width of the stage as input and output channels,
  and no downsample transform. After the first block the tracker is the width of the
  stage; the stages of the network are built with the trackers 64, 64, 128, 256 and the
  widths 64, 128, 256, 512.
\<close>

theorem make_layer_stage:
  "(1 \<le> blocks \<longrightarrow> length (snd (make_layer ic oc blocks s)) = blocks)
   \<and> hd (snd (make_layer ic oc blocks s)) =
       BasicBlock_init ic oc s
         (if s \<noteq> 1 \<or> ic \<noteq> oc then Some [Conv2d ic oc 1 s 0, BatchNorm2d oc] else None)
   \<and> (\<forall>k. 1 \<le> k \<and> k < blocks \<longrightarrow>
         snd (make_layer ic oc blocks s) ! k = BasicBlock_init oc oc 1 None)
   \<and> fst (make_layer ic oc blocks s) = oc
   \<and> (0 < s \<and> 0 < h \<and> 0 < w
        \<and> \<not> (is_training \<and> n * ((h - 1) div s + 1) * ((w - 1) div s + 1) = 1) \<longrightarrow>
        Sequential_shape is_training [Conv2d ic oc 1 s 0, BatchNorm2d oc] [n, ic, h, w]
          = Some [n, oc, (h - 1) div s + 1, (w - 1) div s + 1]
        \<and> BasicBlock_forward_shape is_training (hd (snd (make_layer ic oc blocks s)))
            [n, ic, h, w]
          = Some [n, oc, (h - 1) div s + 1, (w - 1) div s + 1])
   \<and> (ResNet_init layers num_classes = Some net \<longrightarrow>
        ResNet.layer1 net = snd (make_layer 64 64 (layers ! 0) 1)
        \<and> ResNet.layer2 net = snd (make_layer 64 128 (layers ! 1) 2)
        \<and> ResNet.layer3 net = snd (make_layer 128 256 (layers ! 2) 2)
        \<and> ResNet.layer4 net = snd (make_layer 256 512 (layers ! 3) 2))"
proof -
  have a: "length (snd (make_layer ic oc blocks s)) = blocks" if "1 \<le> blocks"
    using that by (simp add: make_layer_unfold)
  have b: "hd (snd (make_layer ic oc blocks s)) =
       BasicBlock_init ic oc s
         (if s \<noteq> 1 \<or> ic \<noteq> oc then Some [Conv2d ic oc 1 s 0, BatchNorm2d oc] else None)"
    by (simp add: make_layer_unfold expansion_def)
  have c: "snd (make_layer ic oc blocks s) ! k = BasicBlock_init oc oc 1 None"
    if "1 \<le> k" "k < blocks" for k
    using that by (cases k) (simp_all add: make_layer_unfold expansion_def)
  have d: "fst (make_layer ic oc blocks s) = oc"
    by (simp add: make_layer_unfold expansion_def)
  have e: "BasicBlock_forward_shape is_training (hd (snd (make_layer ic oc blocks s)))
            [n, ic, h, w]
          = Some [n, oc, (h - 1) div s + 1, (w - 1) div s + 1]"
    if "0 < s" "0 < h" "0 < w"
      "\<not> (is_training \<and> n * ((h - 1) div s + 1) * ((w - 1) div s + 1) = 1)"
    using block_shape [OF that, of ic oc] by (simp add: make_layer_unfold)
  show ?thesis
    using a b c d e Sequential_downsample_shape [of s h w is_training n ic oc]
      ResNet_init_layers [of layers num_classes net]
    by blast
qed

text \<open>
  The second stage of the network of \<open>resnet18\<close>, on a batch of 4 feature maps in
  training mode.
\<close>

theorem make_layer_stage_witness:
  "length (snd (make_layer 64 128 2 2)) = 2
   \<and> hd (snd (make_layer 64 128 2 2)) =
       BasicBlock_init 64 128 2 (Some [Conv2d 64 128 1 2 0, BatchNorm2d 128])
   \<and> snd (make_layer 64 128 2 2) ! 1 = BasicBlock_init 128 128 1 None
   \<and> BasicBlock_forward_shape True (hd (snd (make_layer 64 128 2 2))) [4, 64, 56, 56]
       = Some [4, 128, 28, 28]
   \<and> map_option ResNet.layer2 resnet18 = Some (snd (make_layer 64 128 2 2))"
proof -
  obtain net where net: "ResNet_init [2, 2, 2, 2] 10 = Some net"
    by (simp add: ResNet_init_def split_def Let_def)
  note t = make_layer_stage [of 2 64 128 2 56 56 True 4 "[2, 2, 2, 2]" 10 net]
  have h: "(1::nat) \<le> 2" "(0::nat) < 2" "(0::nat) < 56" "(1::nat) \<le> 1" "(1::nat) < 2"
    "\<not> (True \<and> (4::nat) * ((56 - 1) div 2 + 1) * ((56 - 1) div 2 + 1) = 1)"
    by simp_all
  from t h have a: "length (snd (make_layer 64 128 2 2)) = 2"
    by blast
  from t have "hd (snd (make_layer 64 128 2 2)) =
       BasicBlock_init 64 128 2
         (if (2::nat) \<noteq> 1 \<or> (64::nat) \<noteq> 128
          then Some [Conv2d 64 128 1 2 0, BatchNorm2d 128] else None)"
    by blast
  then have b: "hd (snd (make_layer 64 128 2 2)) =
       BasicBlock_init 64 128 2 (Some [Conv2d 64 128 1 2 0, BatchNorm2d 128])"
    by simp
  from t h have c: "snd (make_layer 64 128 2 2) ! 1 = BasicBlock_init 128 128 1 None"
    by blast
  from t h have "BasicBlock_forward_shape True (hd (snd (make_layer 64 128 2 2)))
       [4, 64, 56, 56]
       = Some [4, 128, (56 - 1) div 2 + 1, (56 - 1) div 2 + 1]"
    by blast
  then have d: "BasicBlock_forward_shape True (hd (snd (make_layer 64 128 2 2)))
       [4, 64, 56, 56]
       = Some [4, 128, 28, 28]"
    by simp
  from t net have "ResNet.layer2 net = snd (make_layer 64 128 ([2, 2, 2, 2] ! 1) 2)"
    by blast
  then have e: "map_option ResNet.layer2 resnet18 = Some (snd (make_layer 64 128 2 2))"
    by (simp add: resnet18_def net)
  from a b c d e show ?thesis
    by blast
qed

text \<open>
  With a count of 0 the stage still has its first block: the first block is appended
  before the loop over \<open>range(1, blocks)\<close>.
\<close>

theorem make_layer_zero_blocks_counterexample:
  "length (snd (make_layer 64 64 0 1)) = 1
   \<and> map_option (length \<circ> ResNet.layer1) (ResNet_init [0, 2, 2, 2] 10) = Some 1"
  by (simp add: ResNet_init_def make_layer_unfold)

lemmas resnet_shape_defs = resnet18_def ResNet_init_def make_layer_unfold
  ResNet_forward_shape_def BasicBlock_forward_shape_def BasicBlock_init_def expansion_def
  iadd_shape_def ResNet_stem_shape_def ResNet_stages_shape_def ResNet_head_shape_def

text \<open>
  C6 (amended). The network of \<open>resnet18\<close> (stages of 2, 2, 2, 2 blocks, 10 classes) maps an
  input of shape \<open>(N, 3, 224, 224)\<close> to an output of shape \<open>(N, 10)\<close> for every batch size
  \<open>N\<close> and in both modes, and an input of shape \<open>(N, 3, 32, 32)\<close> to an output of shape
  \<open>(N, 10)\<close> for every \<open>N\<close> in evaluation mode and for every \<open>N\<close> other than 1 in training
  mode; a single 32x32 image in training mode is refused, because the last stage brings
  it to one value per channel. The stem (7x7 convolution of stride 2, normalization,
  activation, 3x3 max-pool of stride 2) gives \<open>(N, 64, 56, 56)\<close> and \<open>(N, 64, 8, 8)\<close>, the
  four stages give \<open>(N, 512, 7, 7)\<close> and \<open>(N, 512, 1, 1)\<close>, global average pooling gives
  \<open>(N, 512, 1, 1)\<close>, flattening \<open>(N, 512)\<close>, and the linear map \<open>(N, 10)\<close>. On values the
  forward pass is the stem, the blocks of the four stages in their order, the pooling,
  the flattening and the final linear layer, whose output is returned with nothing
  applied to it.
\<close>

theorem resnet18_forward_shape:
  "resnet18 \<bind> (\<lambda>net. ResNet_forward_shape is_training net [N, 3, 224, 224]) = Some [N, 10]
   \<and> resnet18 \<bind> (\<lambda>net. ResNet_forward_shape is_training net [N, 3, 32, 32])
       = (if is_training \<and> N = 1 then None else Some [N, 10])
   \<and> map_option ResNet.conv1 resnet18 = Some (Conv2d 3 64 7 2 3)
   \<and> map_option ResNet.bn1 resnet18 = Some (BatchNorm2d 64)
   \<and> map_option ResNet.relu resnet18 = Some ReLU
   \<and> map_option ResNet.maxpool resnet18 = Some (MaxPool2d 3 2 1)
   \<and> map_option (\<lambda>net. map length
         [ResNet.layer1 net, ResNet.layer2 net, ResNet.layer3 net, ResNet.layer4 net]) resnet18
       = Some [2, 2, 2, 2]
   \<and> map_option ResNet.avgpool resnet18 = Some (AdaptiveAvgPool2d 1 1)
   \<and> map_option ResNet.fc resnet18 = Some (Linear 512 10)
   \<and> resnet18 \<bind> (\<lambda>net. ResNet_stem_shape is_training net [N, 3, 224, 224])
       = Some [N, 64, 56, 56]
   \<and> resnet18 \<bind> (\<lambda>net. ResNet_stages_shape is_training net [N, 64, 56, 56])
       = Some [N, 512, 7, 7]
   \<and> resnet18 \<bind> (\<lambda>net. ResNet_head_shape is_training net [N, 512, 7, 7]) = Some [N, 10]
   \<and> resnet18 \<bind> (\<lambda>net. ResNet_stem_shape is_training net [N, 3, 32, 32])
       = Some [N, 64, 8, 8]
   \<and> resnet18 \<bind> (\<lambda>net. ResNet_stages_shape is_training net [N, 64, 8, 8])
       = (if is_training \<and> N = 1 then None else Some [N, 512, 1, 1])
   \<and> resnet18 \<bind> (\<lambda>net. ResNet_head_shape is_training net [N, 512, 1, 1]) = Some [N, 10]
   \<and> layer_shape is_training (AdaptiveAvgPool2d 1 1) [N, 512, 7, 7] = Some [N, 512, 1, 1]
   \<and> flatten_shape [N, 512, 1, 1] = Some [N, 512]
   \<and> layer_shape is_training (Linear 512 10) [N, 512] = Some [N, 10]
   \<and> ResNet_forward m x =
       ResNet_fn.fc m (flatten (ResNet_fn.avgpool m
         (Sequential_forward (ResNet_fn.layer4 m)
           (Sequential_forward (ResNet_fn.layer3 m)
             (Sequential_forward (ResNet_fn.layer2 m)
               (Sequential_forward (ResNet_fn.layer1 m)
                 (ResNet_fn.maxpool m (ResNet_fn.relu m
                    (ResNet_fn.bn1 m (ResNet_fn.conv1 m x))))))))))
   \<and> Sequential_forward [] x = x
   \<and> Sequential_forward (b # bs) x = Sequential_forward bs (BasicBlock_forward b x)
   \<and> flatten x = x
   \<and> ResNet_forward (m\<lparr>ResNet_fn.fc := f\<rparr>) x
       = f (ResNet_forward (m\<lparr>ResNet_fn.fc := (\<lambda>t. t)\<rparr>) x)"
proof -
  have s224: "resnet18 \<bind> (\<lambda>net. ResNet_forward_shape is_training net [N, 3, 224, 224])
      = Some [N, 10]"
    by (simp add: resnet_shape_defs)
  have s32: "resnet18 \<bind> (\<lambda>net. ResNet_forward_shape is_training net [N, 3, 32, 32])
       = (if is_training \<and> N = 1 then None else Some [N, 10])"
    by (simp add: resnet_shape_defs)
  have cfg: "map_option ResNet.conv1 resnet18 = Some (Conv2d 3 64 7 2 3)"
    "map_option ResNet.bn1 resnet18 = Some (BatchNorm2d 64)"
    "map_option ResNet.relu resnet18 = Some ReLU"
    "map_option ResNet.maxpool resnet18 = Some (MaxPool2d 3 2 1)"
    "map_option (\<lambda>net. map length
         [ResNet.layer1 net, ResNet.layer2 net, ResNet.layer3 net, ResNet.layer4 net]) resnet18
       = Some [2, 2, 2, 2]"
    "map_option ResNet.avgpool resnet18 = Some (AdaptiveAvgPool2d 1 1)"
    "map_option ResNet.fc resnet18 = Some (Linear 512 10)"
    by (simp_all add: resnet18_def ResNet_init_def make_layer_unfold expansion_def)
  have parts: "resnet18 \<bind> (\<lambda>net. ResNet_stem_shape is_training net [N, 3, 224, 224])
       = Some [N, 64, 56, 56]"
    "resnet18 \<bind> (\<lambda>net. ResNet_stages_shape is_training net [N, 64, 56, 56])
       = Some [N, 512, 7, 7]"
    "resnet18 \<bind> (\<lambda>net. ResNet_head_shape is_training net [N, 512, 7, 7]) = Some [N, 10]"
    "resnet18 \<bind> (\<lambda>net. ResNet_stem_shape is_training net [N, 3, 32, 32])
       = Some [N, 64, 8, 8]"
    "resnet18 \<bind> (\<lambda>net. ResNet_stages_shape is_training net [N, 64, 8, 8])
       = (if is_training \<and> N = 1 then None else Some [N, 512, 1, 1])"
    "resnet18 \<bind> (\<lambda>net. ResNet_head_shape is_training net [N, 512, 1, 1]) = Some [N, 10]"
    by (simp_all add: resnet_shape_defs)
  have head: "layer_shape is_training (AdaptiveAvgPool2d 1 1) [N, 512, 7, 7] = Some [N, 512, 1, 1]"
    "flatten_shape [N, 512, 1, 1] = Some [N, 512]"
    "layer_shape is_training (Linear 512 10) [N, 512] = Some [N, 10]"
    by simp_all
  have val: "ResNet_forward m x =
       ResNet_fn.fc m (flatten (ResNet_fn.avgpool m
         (Sequential_forward (ResNet_fn.layer4 m)
           (Sequential_forward (ResNet_fn.layer3 m)
             (Sequential_forward (ResNet_fn.layer2 m)
               (Sequential_forward (ResNet_fn.layer1 m)
                 (ResNet_fn.maxpool m (ResNet_fn.relu m
                    (ResNet_fn.bn1 m (ResNet_fn.conv1 m x))))))))))"
    "Sequential_forward [] x = x"
    "Sequential_forward (b # bs) x = Sequential_forward bs (BasicBlock_forward b x)"
    "flatten x = x"
    "ResNet_forward (m\<lparr>ResNet_fn.fc := f\<rparr>) x
       = f (ResNet_forward (m\<lparr>ResNet_fn.fc := (\<lambda>t. t)\<rparr>) x)"
    by (simp_all add: ResNet_forward_def Sequential_forward_def flatten_def)
  show ?thesis
    by (intro conjI) (fact s224 s32 cfg parts head val)+
qed

text \<open>
  Batches of 64 images, the batch size of the notebook, in training mode, and the
  forward pass of a small network of simple layer functions on the value 3.
\<close>

theorem resnet18_forward_shape_witness:
  "resnet18 \<bind> (\<lambda>net. ResNet_forward_shape True net [64, 3, 224, 224]) = Some [64, 10]
   \<and> resnet18 \<bind> (\<lambda>net. ResNet_forward_shape True net [64, 3, 32, 32]) = Some [64, 10]
   \<and> resnet18 \<bind> (\<lambda>net. ResNet_forward_shape False net [1, 3, 32, 32]) = Some [1, 10]
   \<and> ResNet_forward stub_resnet [3] = [- 199 / 2]"
proof -
  note t = resnet18_forward_shape [of True 64 stub_resnet "[3]" stub_block "[]" "\<lambda>t. t"]
  note u = resnet18_forward_shape [of False 1 stub_resnet "[3]" stub_block "[]" "\<lambda>t. t"]
  have a: "resnet18 \<bind> (\<lambda>net. ResNet_forward_shape True net [64, 3, 224, 224]) = Some [64, 10]"
    using t by (elim conjE) assumption
  have "resnet18 \<bind> (\<lambda>net. ResNet_forward_shape True net [64, 3, 32, 32])
      = (if True \<and> (64::nat) = 1 then None else Some [64, 10])"
    using t by (elim conjE) assumption
  then have b: "resnet18 \<bind> (\<lambda>net. ResNet_forward_shape True net [64, 3, 32, 32])
      = Some [64, 10]"
    by simp
  have "resnet18 \<bind> (\<lambda>net. ResNet_forward_shape False net [1, 3, 32, 32])
      = (if False \<and> (1::nat) = 1 then None else Some [1, 10])"
    using u by (elim conjE) assumption
  then have c: "resnet18 \<bind> (\<lambda>net. ResNet_forward_shape False net [1, 3, 32, 32])
      = Some [1, 10]"
    by simp
  have "ResNet_forward stub_resnet [3] =
       ResNet_fn.fc stub_resnet (flatten (ResNet_fn.avgpool stub_resnet
         (Sequential_forward (ResNet_fn.layer4 stub_resnet)
           (Sequential_forward (ResNet_fn.layer3 stub_resnet)
             (Sequential_forward (ResNet_fn.layer2 stub_resnet)
               (Sequential_forward (ResNet_fn.layer1 stub_resnet)
                 (ResNet_fn.maxpool stub_resnet (ResNet_fn.relu stub_resnet
                    (ResNet_fn.bn1 stub_resnet (ResNet_fn.conv1 stub_resnet [3]))))))))))"
    using t by (elim conjE) assumption
  then have d: "ResNet_forward stub_resnet [3] = [- 199 / 2]"
    by (simp add: stub_resnet_def stub_block_def BasicBlock_forward_def Sequential_forward_def
        iadd_def torch_relu_def flatten_def)
  from a b c d show ?thesis by blast
qed

text \<open>
  A single 32x32 image in training mode: the stem and the first three stages bring it to
  \<open>(1, 256, 2, 2)\<close>, the first convolution of the last stage to \<open>(1, 512, 1, 1)\<close>, and the
  batch normalization that follows refuses it, so the forward pass has no output. In
  evaluation mode the same image gives \<open>(1, 10)\<close>.
\<close>

theorem resnet18_single_image_training_counterexample:
  "resnet18 \<bind> (\<lambda>net. ResNet_forward_shape True net [1, 3, 32, 32]) = None
   \<and> resnet18 \<bind> (\<lambda>net. ResNet_stem_shape True net [1, 3, 32, 32]) = Some [1, 64, 8, 8]
   \<and> resnet18 \<bind> (\<lambda>net. ResNet_stages_shape True net [1, 64, 8, 8]) = None
   \<and> resnet18 \<bind> (\<lambda>net. blocks_shape True (ResNet.layer1 net) [1, 64, 8, 8])
       = Some [1, 64, 8, 8]
   \<and> resnet18 \<bind> (\<lambda>net. blocks_shape True (ResNet.layer2 net) [1, 64, 8, 8])
       = Some [1, 128, 4, 4]
   \<and> resnet18 \<bind> (\<lambda>net. blocks_shape True (ResNet.layer3 net) [1, 128, 4, 4])
       = Some [1, 256, 2, 2]
   \<and> resnet18 \<bind> (\<lambda>net. blocks_shape True (ResNet.layer4 net) [1, 256, 2, 2]) = None
   \<and> layer_shape True (Conv2d 256 512 3 2 1) [1, 256, 2, 2] = Some [1, 512, 1, 1]
   \<and> layer_shape True (BatchNorm2d 512) [1, 512, 1, 1] = None
   \<and> resnet18 \<bind> (\<lambda>net. ResNet_forward_shape False net [1, 3, 32, 32]) = Some [1, 10]"
  by (simp add: resnet_shape_defs)

text \<open>
  C10. The second definition of \<open>SimpleCNN\<close> applies the activation to the output of its
  final linear layer \<open>fc2\<close>: for every input it returns the activation of what the first
  definition returns, so every component of its class scores is at least 0. The first
  definition and the residual network return what their final linear layer returns,
  unchanged.
\<close>

theorem SimpleCNN_redefined_output_nonnegative:
  "(\<forall>c\<in>set (SimpleCNN_forward_redefined m x). 0 \<le> c)
   \<and> SimpleCNN_forward_redefined m x = torch_relu (SimpleCNN_forward m x)
   \<and> SimpleCNN_forward (m\<lparr>fc2 := f\<rparr>) x = f (SimpleCNN_forward (m\<lparr>fc2 := (\<lambda>t. t)\<rparr>) x)
   \<and> ResNet_forward (r\<lparr>ResNet_fn.fc := g\<rparr>) y = g (ResNet_forward (r\<lparr>ResNet_fn.fc := (\<lambda>t. t)\<rparr>) y)"
proof -
  have "SimpleCNN_forward_redefined m x = torch_relu (SimpleCNN_forward m x)"
    by (simp add: SimpleCNN_forward_redefined_def SimpleCNN_forward_def)
  moreover have "\<forall>c\<in>set (torch_relu t). 0 \<le> c" for t
    by (simp add: torch_relu_def)
  moreover have "SimpleCNN_forward (m\<lparr>fc2 := f\<rparr>) x = f (SimpleCNN_forward (m\<lparr>fc2 := (\<lambda>t. t)\<rparr>) x)"
    by (simp add: SimpleCNN_forward_def)
  moreover have "ResNet_forward (r\<lparr>ResNet_fn.fc := g\<rparr>) y = g (ResNet_forward (r\<lparr>ResNet_fn.fc := (\<lambda>t. t)\<rparr>) y)"
    by (simp add: ResNet_forward_def)
  ultimately show ?thesis by simp
qed

text \<open>
  A network whose final layer gives the scores -2 and 1: the first definition returns
  them, the second returns 0 and 1.
\<close>

theorem SimpleCNN_redefined_output_nonnegative_witness:
  "SimpleCNN_forward stub_cnn [3, 0] = [- 2, 1]
   \<and> SimpleCNN_forward_redefined stub_cnn [3, 0] = [0, 1]"
proof -
  have a: "SimpleCNN_forward stub_cnn [3, 0] = [- 2, 1]"
    by (simp add: SimpleCNN_forward_def stub_cnn_def torch_relu_def view_def)
  from SimpleCNN_redefined_output_nonnegative [of stub_cnn "[3, 0]"]
  have "SimpleCNN_forward_redefined stub_cnn [3, 0] = torch_relu (SimpleCNN_forward stub_cnn [3, 0])"
    by blast
  with a show ?thesis
    by (simp add: torch_relu_def)
qed

end
